theory Spec2Isabelle
  imports Complex_Main
begin

section \<open>Python strings\<close>

text \<open>
  A Python \<open>str\<close> is modelled as an Isabelle \<open>string\<close>; a \<open>char\<close> stands for the
  Unicode code point of the same number, so the model covers the strings over the code
  points 0..255 (ASCII and Latin-1).  The character classes below are Python's
  \<open>str.isspace\<close>, \<open>str.isalnum\<close> and \<open>str.lower\<close> on that range; the regular
  expression class \<open>\s\<close> of a \<open>str\<close> pattern is the same set as \<open>isspace\<close>.
\<close>

abbreviation nl :: char where
  "nl \<equiv> CHR 0x0A"

abbreviation dq :: char where
  "dq \<equiv> CHR 0x22"

definition isspace :: "char \<Rightarrow> bool" where
  "isspace c =
     (let n = (of_char c :: nat)
      in (9 \<le> n \<and> n \<le> 13) \<or> (28 \<le> n \<and> n \<le> 32) \<or> n = 133 \<or> n = 160)"

definition isalnum :: "char \<Rightarrow> bool" where
  "isalnum c =
     (let n = (of_char c :: nat)
      in (48 \<le> n \<and> n \<le> 57) \<or> (65 \<le> n \<and> n \<le> 90) \<or> (97 \<le> n \<and> n \<le> 122)
         \<or> n = 170 \<or> n = 178 \<or> n = 179 \<or> n = 181 \<or> n = 185 \<or> n = 186
         \<or> (188 \<le> n \<and> n \<le> 190) \<or> (192 \<le> n \<and> n \<le> 214)
         \<or> (216 \<le> n \<and> n \<le> 246) \<or> (248 \<le> n \<and> n \<le> 255))"

definition lower_char :: "char \<Rightarrow> char" where
  "lower_char c =
     (let n = (of_char c :: nat)
      in if (65 \<le> n \<and> n \<le> 90) \<or> (192 \<le> n \<and> n \<le> 222 \<and> n \<noteq> 215)
         then char_of (n + 32) else c)"

definition lower :: "string \<Rightarrow> string" where
  "lower s = map lower_char s"

text \<open>
  \<open>str.upper\<close>, one character at a time: a-z and the Latin-1 lower-case letters move
  down by 32 and the sharp s becomes \<open>SS\<close>.  The upper-case forms of the micro sign
  and of y with diaeresis lie beyond code point 255; they are left in place, which no
  comparison with an ASCII text can tell apart.
\<close>

definition upper_char :: "char \<Rightarrow> string" where
  "upper_char c =
     (let n = (of_char c :: nat)
      in if (97 \<le> n \<and> n \<le> 122) \<or> (224 \<le> n \<and> n \<le> 254 \<and> n \<noteq> 247)
         then [char_of (n - 32)]
         else if n = 223 then ''SS'' else [c])"

definition upper :: "string \<Rightarrow> string" where
  "upper s = concat (map upper_char s)"

definition startswith :: "string \<Rightarrow> string \<Rightarrow> bool" where
  "startswith s p = (take (length p) s = p)"

text \<open>The substring test \<open>sub in s\<close>.\<close>

fun contains :: "string \<Rightarrow> string \<Rightarrow> bool" where
  "contains [] sub = (sub = [])"
| "contains (c # cs) sub = (startswith (c # cs) sub \<or> contains cs sub)"

definition lstrip :: "string \<Rightarrow> string" where
  "lstrip s = dropWhile isspace s"

definition rstrip :: "string \<Rightarrow> string" where
  "rstrip s = rev (dropWhile isspace (rev s))"

definition strip :: "string \<Rightarrow> string" where
  "strip s = rstrip (lstrip s)"

text \<open>\<open>s.split('\n')\<close> and \<open>'\n'.join(lines)\<close>.\<close>

fun split_nl :: "string \<Rightarrow> string list" where
  "split_nl [] = [[]]"
| "split_nl (c # cs) =
     (if c = nl then [] # split_nl cs
      else (case split_nl cs of
              l # ls \<Rightarrow> (c # l) # ls
            | [] \<Rightarrow> [[c]]))"

fun join_nl :: "string list \<Rightarrow> string" where
  "join_nl [] = []"
| "join_nl [l] = l"
| "join_nl (l # m # ls) = l @ nl # join_nl (m # ls)"

section \<open>Regular expressions of the cleaners\<close>

text \<open>
  Every pattern of the repository is a fixed text between anchors and runs of
  whitespace, so each is modelled by a matcher: given whether the position is at the
  start of a line (where \<open>^\<close> matches under \<open>re.MULTILINE\<close>) and the text from the
  position on, it returns the length of the match there, 0 when there is none (no
  pattern of the repository matches the empty text).  \<open>re.IGNORECASE\<close> is the
  comparison of the lower-cased text.
\<close>

type_synonym matcher = "bool \<Rightarrow> string \<Rightarrow> nat"

definition startswith_ci :: "string \<Rightarrow> string \<Rightarrow> bool" where
  "startswith_ci s p = startswith (lower s) p"

text \<open>The greedy \<open>\s*\<close>: the length of the longest run of whitespace.\<close>

definition ws_run :: "string \<Rightarrow> nat" where
  "ws_run s = length (takeWhile isspace s)"

text \<open>
  \<open>re.sub(pattern, '', s)\<close>: scan from the left; where the pattern matches, drop the
  match and go on behind it, otherwise keep the character.  Whether a position starts
  a line is read from the character before it in the text being scanned.
\<close>

function sub_remove :: "matcher \<Rightarrow> bool \<Rightarrow> string \<Rightarrow> string" where
  "sub_remove m bol [] = []"
| "sub_remove m bol (c # cs) =
     (case m bol (c # cs) of
        0 \<Rightarrow> c # sub_remove m (c = nl) cs
      | Suc k \<Rightarrow> sub_remove m (last (c # take k cs) = nl) (drop k cs))"
  by pat_completeness auto
termination
  by (relation "measure (\<lambda>(m, bol, s). length s)") auto

text \<open>\<open>^```html\s*\n?\<close>, \<open>^```json\s*\n?\<close>, \<open>^```\s*\n?\<close> and \<open>^html\s*\n?\<close>: the
  word at the start of a line, then all whitespace behind it (the greedy \<open>\s*\<close>
  leaves no line feed for \<open>\n?\<close>).\<close>

definition line_word :: "string \<Rightarrow> matcher" where
  "line_word w bol s =
     (if bol \<and> startswith_ci s w then length w + ws_run (drop (length w) s) else 0)"

text \<open>
  \<open>\s*$\<close> under \<open>re.MULTILINE\<close>: \<open>$\<close> matches at the end of the text and before
  a line feed.  The greedy run takes all whitespace; if the text ends there, that is
  the match, otherwise the run is given back up to its last line feed.
\<close>

definition ws_to_eol :: "string \<Rightarrow> nat option" where
  "ws_to_eol t =
     (let run = takeWhile isspace t
      in if length run = length t then Some (length run)
         else if nl \<in> set run
         then Some (length run - 1 - length (takeWhile (\<lambda>c. c \<noteq> nl) (rev run)))
         else None)"

text \<open>\<open>```\s*$\<close> and, with the flag set, \<open>\n?```\s*$\<close>.\<close>

definition fence_close :: "bool \<Rightarrow> matcher" where
  "fence_close opt_nl bol s =
     (let j = (if opt_nl \<and> startswith s (nl # ''```'') then 1 else 0)
      in if startswith (drop j s) ''```''
         then (case ws_to_eol (drop (j + 3) s) of
                 None \<Rightarrow> 0
               | Some n \<Rightarrow> j + 3 + n)
         else 0)"

section \<open>fixed\_code\_cleaner.py\<close>

datatype error =
    AttributeError
  | TypeError
  | KeyError
  | IndexError
  | ValueError
  | OSError
  | JSONDecodeError string
  | PyException string

text \<open>What a caller can hand to a parameter annotated \<open>str\<close>.\<close>

datatype pyval = PyNone | PyStr string

definition str_strip :: "pyval \<Rightarrow> error + string" where
  "str_strip v = (case v of PyStr s \<Rightarrow> Inr (strip s) | PyNone \<Rightarrow> Inl AttributeError)"

text \<open>The loop over the five markdown patterns, in the order of the list.\<close>

definition remove_patterns :: "string \<Rightarrow> string" where
  "remove_patterns cleaned =
     fold (\<lambda>pattern acc. sub_remove pattern True acc)
       [line_word ''```html'', line_word ''```'', fence_close True, fence_close False,
        line_word ''html'']
       cleaned"

text \<open>
  \<open>re.search(r'<html[^>]*>', cleaned, re.IGNORECASE)\<close>, returned as
  \<open>cleaned[html_match.start():]\<close>: the text from the first \<open><html\<close> that has a
  \<open>>\<close> somewhere behind it.
\<close>

fun search_html_tag :: "string \<Rightarrow> string option" where
  "search_html_tag [] = None"
| "search_html_tag (c # cs) =
     (if startswith_ci (c # cs) ''<html'' \<and> CHR ''>'' \<in> set (drop 5 (c # cs))
      then Some (c # cs) else search_html_tag cs)"

definition lenient_html_validation :: "string \<Rightarrow> bool" where
  "lenient_html_validation html =
     (let html_lower = lower html;
          html_indicators =
            [contains html_lower ''doctype'', contains html_lower ''<html'',
             contains html_lower ''<head'', contains html_lower ''<body'',
             contains html_lower ''<title''];
          valid_indicators = length (filter id html_indicators)
      in \<not> valid_indicators < 2)"

definition format_html :: "string \<Rightarrow> string" where
  "format_html html =
     join_nl (map rstrip (filter (\<lambda>line. strip line \<noteq> []) (split_nl html)))"

text \<open>The branch on the document-type declaration (lines 37 to 48).\<close>

definition add_doctype :: "string \<Rightarrow> string" where
  "add_doctype cleaned =
     (if \<not> startswith (upper cleaned) ''<!DOCTYPE'' then
        (case search_html_tag cleaned of
           Some from_tag \<Rightarrow> ''<!DOCTYPE html>'' @ [nl] @ from_tag
         | None \<Rightarrow>
             if contains (lower cleaned) ''<head>'' \<or> contains (lower cleaned) ''<body>''
             then ''<!DOCTYPE html>'' @ [nl] @ ''<html lang='' @ [dq] @ ''en'' @ [dq] @ ''>''
                  @ [nl] @ cleaned @ [nl] @ ''</html>''
             else cleaned)
      else cleaned)"

text \<open>
  The body of the \<open>try\<close>.  The result of \<open>_lenient_html_validation\<close> only decides
  whether a warning is logged, so it does not show in the value.
\<close>

definition clean_try :: "pyval \<Rightarrow> error + string" where
  "clean_try raw_response =
     (case str_strip raw_response of
        Inl e \<Rightarrow> Inl e
      | Inr cleaned \<Rightarrow>
          Inr (format_html (add_doctype (strip (remove_patterns cleaned)))))"

text \<open>\<open>```[a-zA-Z]*\s*\n?\<close> without flags: a fence anywhere, its language tag and the
  whitespace behind it.\<close>

definition ascii_letter :: "char \<Rightarrow> bool" where
  "ascii_letter c =
     (let n = (of_char c :: nat) in (65 \<le> n \<and> n \<le> 90) \<or> (97 \<le> n \<and> n \<le> 122))"

definition fence_tag :: matcher where
  "fence_tag bol s =
     (if startswith s ''```''
      then (let tag = length (takeWhile ascii_letter (drop 3 s))
            in 3 + tag + ws_run (drop (3 + tag) s))
      else 0)"

text \<open>\<open>\n?```\s*$\<close> without \<open>re.MULTILINE\<close>: \<open>$\<close> matches at the end of the text
  and before a line feed that ends the text, so the whitespace has to reach the end.\<close>

definition fence_at_end :: matcher where
  "fence_at_end bol s =
     (let j = (if startswith s (nl # ''```'') then 1 else 0)
      in if startswith (drop j s) ''```'' \<and> ws_run (drop (j + 3) s) = length s - (j + 3)
         then length s else 0)"

definition html_shell :: "string \<Rightarrow> string" where
  "html_shell cleaned =
     ''<!DOCTYPE html>'' @ [nl] @
     ''<html lang='' @ [dq] @ ''en'' @ [dq] @ ''>'' @ [nl] @
     ''<head>'' @ [nl] @
     ''    <meta charset='' @ [dq] @ ''UTF-8'' @ [dq] @ ''>'' @ [nl] @
     ''    <meta name='' @ [dq] @ ''viewport'' @ [dq] @ '' content='' @ [dq] @
       ''width=device-width, initial-scale=1.0'' @ [dq] @ ''>'' @ [nl] @
     ''    <title>Educational Game</title>'' @ [nl] @
     ''</head>'' @ [nl] @
     ''<body>'' @ [nl] @
     cleaned @ [nl] @
     ''</body>'' @ [nl] @
     ''</html>''"

definition emergency_cleanup :: "pyval \<Rightarrow> error + string" where
  "emergency_cleanup raw_response =
     (case str_strip raw_response of
        Inl e \<Rightarrow> Inl e
      | Inr cleaned0 \<Rightarrow>
          (let cleaned1 = sub_remove fence_tag True cleaned0;
               cleaned = sub_remove fence_at_end True cleaned1
           in if list_ex (\<lambda>tag. contains (lower cleaned) tag)
                   [''<div'', ''<p>'', ''<h1'', ''<script'', ''<style'']
                 \<and> \<not> startswith (lower cleaned) ''<!doctype''
              then Inr (html_shell cleaned)
              else Inr cleaned))"

definition clean_html_response :: "pyval \<Rightarrow> error + string" where
  "clean_html_response raw_response =
     (case clean_try raw_response of
        Inr cleaned \<Rightarrow> Inr cleaned
      | Inl e \<Rightarrow> emergency_cleanup raw_response)"

section \<open>robust\_game\_generator.py: the cleaner\<close>

definition robust_try :: "pyval \<Rightarrow> error + string" where
  "robust_try raw_response =
     (case str_strip raw_response of
        Inl e \<Rightarrow> Inl e
      | Inr cleaned0 \<Rightarrow>
          (let cleaned = strip (remove_patterns cleaned0)
           in if \<not> startswith (upper cleaned) ''<!DOCTYPE'' then
                (if contains (lower cleaned) ''<html''
                 then Inr (''<!DOCTYPE html>'' @ [nl] @ cleaned)
                 else if list_ex (\<lambda>tag. contains (lower cleaned) tag)
                           [''<head>'', ''<body>'', ''<div>'', ''<script>'']
                 then Inr (html_shell cleaned)
                 else Inr cleaned)
              else Inr cleaned))"

definition robust_clean_html_response :: "pyval \<Rightarrow> error + string" where
  "robust_clean_html_response raw_response =
     (case robust_try raw_response of
        Inr cleaned \<Rightarrow> Inr cleaned
      | Inl e \<Rightarrow> str_strip raw_response)"

section \<open>Values read from JSON\<close>

text \<open>
  What \<open>json.loads\<close> returns.  A Python \<open>float\<close> is kept by its exact value, a
  rational number, or as one of the three special values; comparisons with integers are
  exact in Python, so nothing depends on the rounding of a float.  An object is the list
  of its items in insertion order, with distinct keys.  \<open>json.loads\<close> itself belongs to
  the standard library and is a parameter of the functions that call it.
\<close>

datatype pyfloat = Finite rat | PosInf | NegInf | NaN

datatype json =
    JNull
  | JBool bool
  | JInt int
  | JFloat pyfloat
  | JStr string
  | JArr "json list"
  | JObj "(string \<times> json) list"

type_synonym json_loads = "string \<Rightarrow> error + json"

definition bind_err :: "error + 'a \<Rightarrow> ('a \<Rightarrow> error + 'b) \<Rightarrow> error + 'b" where
  "bind_err m f = (case m of Inl e \<Rightarrow> Inl e | Inr x \<Rightarrow> f x)"

text \<open>\<open>key in data\<close>: keys of a dict, elements of a list, substrings of a string;
  a \<open>TypeError\<close> on the values that are no containers.\<close>

definition py_in :: "string \<Rightarrow> json \<Rightarrow> error + bool" where
  "py_in key data =
     (case data of
        JObj items \<Rightarrow> Inr (key \<in> set (map fst items))
      | JArr xs \<Rightarrow> Inr (JStr key \<in> set xs)
      | JStr s \<Rightarrow> Inr (contains s key)
      | _ \<Rightarrow> Inl TypeError)"

text \<open>\<open>data[key]\<close> with a string key.\<close>

definition py_getitem :: "json \<Rightarrow> string \<Rightarrow> error + json" where
  "py_getitem data key =
     (case data of
        JObj items \<Rightarrow> (case map_of items key of None \<Rightarrow> Inl KeyError | Some v \<Rightarrow> Inr v)
      | _ \<Rightarrow> Inl TypeError)"

text \<open>\<open>data.get(key, default)\<close>: only a dict has the method.\<close>

definition py_get :: "json \<Rightarrow> string \<Rightarrow> json \<Rightarrow> error + json" where
  "py_get data key dflt =
     (case data of
        JObj items \<Rightarrow> (case map_of items key of None \<Rightarrow> Inr dflt | Some v \<Rightarrow> Inr v)
      | _ \<Rightarrow> Inl AttributeError)"

definition py_len :: "json \<Rightarrow> error + nat" where
  "py_len v =
     (case v of
        JStr s \<Rightarrow> Inr (length s)
      | JArr xs \<Rightarrow> Inr (length xs)
      | JObj items \<Rightarrow> Inr (length (remdups (map fst items)))
      | _ \<Rightarrow> Inl TypeError)"

text \<open>The value of a number (\<open>bool\<close> is a subclass of \<open>int\<close>); \<open>None\<close> for the
  values an ordering comparison with an \<open>int\<close> raises \<open>TypeError\<close> on.\<close>

definition as_number :: "json \<Rightarrow> pyfloat option" where
  "as_number v =
     (case v of
        JInt n \<Rightarrow> Some (Finite (of_int n))
      | JBool b \<Rightarrow> Some (Finite (if b then 1 else 0))
      | JFloat f \<Rightarrow> Some f
      | _ \<Rightarrow> None)"

text \<open>\<open>lo <= x\<close> and \<open>x <= hi\<close> for integers \<open>lo\<close>, \<open>hi\<close>; every comparison
  with a NaN is false.\<close>

definition int_le_float :: "int \<Rightarrow> pyfloat \<Rightarrow> bool" where
  "int_le_float lo x =
     (case x of Finite r \<Rightarrow> of_int lo \<le> r | PosInf \<Rightarrow> True | NegInf \<Rightarrow> False | NaN \<Rightarrow> False)"

definition float_le_int :: "pyfloat \<Rightarrow> int \<Rightarrow> bool" where
  "float_le_int x hi =
     (case x of Finite r \<Rightarrow> r \<le> of_int hi | PosInf \<Rightarrow> False | NegInf \<Rightarrow> True | NaN \<Rightarrow> False)"

text \<open>\<open>n != v\<close> for the integer \<open>n\<close>: never raises; a value that is no number
  differs from every integer.\<close>

definition int_ne :: "nat \<Rightarrow> json \<Rightarrow> bool" where
  "int_ne n v =
     (case as_number v of
        Some (Finite r) \<Rightarrow> of_nat n \<noteq> r
      | _ \<Rightarrow> True)"

section \<open>adaptive\_game\_generator.py: the analyzer\<close>

text \<open>The body of the \<open>try\<close> of \<open>_validate_analysis\<close>, statement by statement.\<close>

definition validate_try :: "json \<Rightarrow> error + bool" where
  "validate_try data =
     bind_err (py_in ''content_analysis'' data) (\<lambda>has_ca.
     bind_err (if has_ca then py_in ''game_specifications'' data else Inr False) (\<lambda>has_all.
     if \<not> has_all then Inr False else
     bind_err (py_getitem data ''content_analysis'') (\<lambda>content_analysis.
     bind_err (py_in ''optimal_game_count'' content_analysis) (\<lambda>has_count.
     if \<not> has_count then Inr False else
     bind_err (py_getitem content_analysis ''optimal_game_count'') (\<lambda>game_count.
     bind_err (case as_number game_count of
                 None \<Rightarrow> Inl TypeError
               | Some x \<Rightarrow> Inr (int_le_float 3 x \<and> float_le_int x 15)) (\<lambda>in_range.
     if \<not> in_range then Inr False else
     bind_err (py_getitem data ''game_specifications'') (\<lambda>games.
     bind_err (py_len games) (\<lambda>n.
     if int_ne n game_count then Inr False else Inr True))))))))"

definition validate_analysis :: "json \<Rightarrow> bool" where
  "validate_analysis data =
     (case validate_try data of Inl e \<Rightarrow> False | Inr ok \<Rightarrow> ok)"

definition clean_json_response :: "string \<Rightarrow> string" where
  "clean_json_response response =
     strip (fold (\<lambda>pattern acc. sub_remove pattern True acc)
              [line_word ''```json'', line_word ''```'', fence_close True, fence_close False]
              (strip response))"

text \<open>
  The observable steps of a run: a call of the language model, a sleep of so many
  seconds, a log line (its level and its text without the interpolated values that are
  not numbers), a file written.
\<close>

datatype level = LInfo | LWarning | LError

text \<open>An entry of \<open>successful_games\<close> (its \<open>status\<close> is always \<open>success\<close>), the
  index page by the values it shows, and the report (without the success rate, a
  formatted float).\<close>

record game_entry =
  e_number :: nat
  e_title :: json
  e_filename :: string
  e_concept :: json
  e_difficulty :: json
  e_learning_objective :: json
  e_estimated_time :: json

record index_page =
  idx_game_count :: nat
  idx_total_time :: int
  idx_cards :: "game_entry list"

record report =
  rep_content_analysis :: json
  rep_generated_games :: "game_entry list"
  rep_total_games_requested :: json
  rep_total_games_generated :: nat

text \<open>An entry of the multi-agent variant's index.\<close>

record saved_game =
  s_title :: json
  s_filename :: string
  s_validation_score :: json

datatype event =
    LlmCall
  | Sleep nat
  | Log level string
  | Mkdir
  | WriteFile string string
  | WriteIndex index_page
  | WriteReport report
  | WriteSavedIndex "saved_game list"

text \<open>The answer of \<open>llm.aask\<close>: it raises with a message, or returns a text.\<close>

datatype reply = Raises string | Returns string

function str_nat :: "nat \<Rightarrow> string" where
  "str_nat n =
     (if n < 10 then [char_of (48 + n)]
      else str_nat (n div 10) @ [char_of (48 + n mod 10)])"
  by pat_completeness auto
termination
  by (relation "measure id") auto

declare str_nat.simps [simp del]

abbreviation max_retries :: nat where
  "max_retries \<equiv> 3"

text \<open>
  \<open>AdaptiveContentAnalyzer.run\<close>, from attempt \<open>attempt\<close> on.  The answer of the
  model at each attempt is given by \<open>llm\<close>.  An exception inside the \<open>try\<close> (of the
  call or of \<open>json.loads\<close>) reaches the handler, which sleeps or, at the last attempt,
  raises; a result that fails the validation only logs a warning and the loop goes on.
\<close>

function analyzer_loop :: "(nat \<Rightarrow> reply) \<Rightarrow> json_loads \<Rightarrow> nat \<Rightarrow> event list \<times> (error + json)" where
  "analyzer_loop llm loads attempt =
     (if max_retries \<le> attempt
      then ([], Inl (PyException ''All content analysis attempts failed''))
      else
        (let handler = (\<lambda>u::unit.
               if attempt = max_retries - 1
               then ([LlmCall, Log LWarning (''Analysis attempt '' @ str_nat (attempt + 1) @ '' failed'')],
                     Inl (PyException (''Failed to analyze content after '' @ str_nat max_retries
                                        @ '' attempts'')))
               else (case analyzer_loop llm loads (Suc attempt) of
                       (events, res) \<Rightarrow>
                         ([LlmCall, Log LWarning (''Analysis attempt '' @ str_nat (attempt + 1) @ '' failed''),
                           Sleep 1] @ events, res)))
         in case llm attempt of
              Raises msg \<Rightarrow> handler ()
            | Returns response \<Rightarrow>
                (case loads (clean_json_response response) of
                   Inl e \<Rightarrow> handler ()
                 | Inr analysis_data \<Rightarrow>
                     if validate_analysis analysis_data
                     then ([LlmCall, Log LInfo ''Content analysis complete''], Inr analysis_data)
                     else (case analyzer_loop llm loads (Suc attempt) of
                             (events, res) \<Rightarrow>
                               ([LlmCall, Log LWarning (''Analysis validation failed on attempt ''
                                                         @ str_nat (attempt + 1))] @ events, res)))))"
  by pat_completeness auto
termination
  by (relation "measure (\<lambda>(llm, loads, attempt). max_retries - attempt)") auto

declare analyzer_loop.simps [simp del]

definition analyzer_run :: "(nat \<Rightarrow> reply) \<Rightarrow> json_loads \<Rightarrow> event list \<times> (error + json)" where
  "analyzer_run llm loads = analyzer_loop llm loads 0"

section \<open>adaptive\_game\_generator.py: the game generator\<close>

text \<open>
  \<open>EnhancedGameGenerator.run\<close>.  The class calls \<open>self._create_enhanced_fallback\<close>
  and defines no such method; what the call does is a parameter of the model (in the
  class as it stands the attribute lookup raises \<open>AttributeError\<close>).  The position of
  the game and the number of games only feed the prompt.  A short answer goes on to
  the next attempt by \<open>continue\<close>, without the sleep of the handler.
\<close>

type_synonym fallback_builder = "json \<Rightarrow> error + string"

function generator_loop ::
  "(nat \<Rightarrow> reply) \<Rightarrow> fallback_builder \<Rightarrow> json \<Rightarrow> nat \<Rightarrow> event list \<times> (error + string)" where
  "generator_loop llm create_enhanced_fallback game_spec attempt =
     (if max_retries \<le> attempt
      then ([], Inl (PyException ''All game generation attempts failed''))
      else
        (let handler = (\<lambda>before.
               if attempt = max_retries - 1
               then (before @ [Log LWarning (''Generation attempt '' @ str_nat (attempt + 1) @ '' failed'')],
                     Inl (PyException (''Failed to generate game after '' @ str_nat max_retries
                                        @ '' attempts'')))
               else (case generator_loop llm create_enhanced_fallback game_spec (Suc attempt) of
                       (events, res) \<Rightarrow>
                         (before @ [Log LWarning (''Generation attempt '' @ str_nat (attempt + 1) @ '' failed''),
                                    Sleep 1] @ events, res)));
             continue = (\<lambda>before.
               case generator_loop llm create_enhanced_fallback game_spec (Suc attempt) of
                 (events, res) \<Rightarrow> (before @ events, res))
         in case llm attempt of
              Raises msg \<Rightarrow> handler [LlmCall]
            | Returns response \<Rightarrow>
                if response = [] \<or> length (strip response) < 100 then
                  (if attempt < max_retries - 1
                   then continue [LlmCall, Log LWarning (''Short response on attempt '' @ str_nat (attempt + 1))]
                   else (case create_enhanced_fallback game_spec of
                           Inr html \<Rightarrow>
                             ([LlmCall, Log LWarning (''Short response on attempt '' @ str_nat (attempt + 1))],
                              Inr html)
                         | Inl e \<Rightarrow>
                             handler [LlmCall,
                                      Log LWarning (''Short response on attempt '' @ str_nat (attempt + 1))]))
                else
                  (case clean_html_response (PyStr response) of
                     Inl e \<Rightarrow> handler [LlmCall]
                   | Inr cleaned_html \<Rightarrow>
                       if length cleaned_html < 200 then
                         (if attempt < max_retries - 1
                          then continue [LlmCall, Log LWarning ''Cleaned HTML too short'']
                          else ([LlmCall, Log LWarning ''Cleaned HTML too short''], Inr cleaned_html))
                       else ([LlmCall], Inr cleaned_html))))"
  by pat_completeness auto
termination
  by (relation "measure (\<lambda>(llm, fb, game_spec, attempt). max_retries - attempt)") auto

declare generator_loop.simps [simp del]

text \<open>The prompt is built first, outside the \<open>try\<close>, with \<open>game_spec.get\<close>.\<close>

definition generator_run ::
  "(nat \<Rightarrow> reply) \<Rightarrow> fallback_builder \<Rightarrow> json \<Rightarrow> event list \<times> (error + string)" where
  "generator_run llm create_enhanced_fallback game_spec =
     (case py_get game_spec ''title'' (JStr ''Educational Game'') of
        Inl e \<Rightarrow> ([], Inl e)
      | Inr t \<Rightarrow> generator_loop llm create_enhanced_fallback game_spec 0)"

section \<open>robust\_game\_generator.py: the game generator\<close>

text \<open>\<open>RobustGameGeneratorAction.run\<close>: a short answer at the last attempt raises
  inside the \<open>try\<close>, so the handler turns it into the terminal error.\<close>

function robust_loop :: "(nat \<Rightarrow> reply) \<Rightarrow> nat \<Rightarrow> event list \<times> (error + string)" where
  "robust_loop llm attempt =
     (if max_retries \<le> attempt
      then ([], Inl (PyException ''All game generation attempts failed''))
      else
        (let handler = (\<lambda>before.
               if attempt = max_retries - 1
               then (before @ [Log LWarning (''Attempt '' @ str_nat (attempt + 1) @ '' failed''),
                               Log LError ''All attempts failed''],
                     Inl (PyException (''Failed to generate game after '' @ str_nat max_retries
                                        @ '' attempts'')))
               else (case robust_loop llm (Suc attempt) of
                       (events, res) \<Rightarrow>
                         (before @ [Log LWarning (''Attempt '' @ str_nat (attempt + 1) @ '' failed''),
                                    Sleep 1] @ events, res)));
             continue = (\<lambda>before.
               case robust_loop llm (Suc attempt) of
                 (events, res) \<Rightarrow> (before @ events, res))
         in case llm attempt of
              Raises msg \<Rightarrow> handler [LlmCall]
            | Returns response \<Rightarrow>
                if response = [] \<or> length (strip response) < 100 then
                  (if attempt < max_retries - 1
                   then continue [LlmCall, Log LWarning (''Short response on attempt '' @ str_nat (attempt + 1))]
                   else handler [LlmCall,
                                 Log LWarning (''Short response on attempt '' @ str_nat (attempt + 1))])
                else
                  (case robust_clean_html_response (PyStr response) of
                     Inl e \<Rightarrow> handler [LlmCall]
                   | Inr cleaned_html \<Rightarrow>
                       if length cleaned_html < 200 then
                         (if attempt < max_retries - 1
                          then continue [LlmCall, Log LWarning ''Cleaned HTML seems too short'']
                          else ([LlmCall, Log LWarning ''Cleaned HTML seems too short''], Inr cleaned_html))
                       else ([LlmCall], Inr cleaned_html))))"
  by pat_completeness auto
termination
  by (relation "measure (\<lambda>(llm, attempt). max_retries - attempt)") auto

declare robust_loop.simps [simp del]

definition robust_run :: "(nat \<Rightarrow> reply) \<Rightarrow> json \<Rightarrow> event list \<times> (error + string)" where
  "robust_run llm game_spec =
     (case py_get game_spec ''title'' (JStr ''Educational Game'') of
        Inl e \<Rightarrow> ([], Inl e)
      | Inr t \<Rightarrow> robust_loop llm 0)"

section \<open>adaptive\_game\_generator.py: the pipeline\<close>

text \<open>
  What a run meets outside the program: the answers of the model to the analyzer (by
  attempt) and to the generator (by game and attempt), \<open>json.loads\<close>, the missing
  fallback builder, whether the output directory can be made and which files can be
  written.
\<close>

record env =
  analysis_llm :: "nat \<Rightarrow> reply"
  json_loads :: json_loads
  game_llm :: "nat \<Rightarrow> nat \<Rightarrow> reply"
  fallback :: fallback_builder
  mkdir_ok :: bool
  write_ok :: "string \<Rightarrow> bool"

text \<open>Iteration over a value: the elements of a list, the characters of a string, the
  keys of a dict.\<close>

definition py_iter :: "json \<Rightarrow> error + json list" where
  "py_iter v =
     (case v of
        JArr xs \<Rightarrow> Inr xs
      | JStr s \<Rightarrow> Inr (map (\<lambda>c. JStr [c]) s)
      | JObj items \<Rightarrow> Inr (map (\<lambda>kv. JStr (fst kv)) items)
      | _ \<Rightarrow> Inl TypeError)"

text \<open>\<open>t.isalnum()\<close> of a string.\<close>

definition str_isalnum :: "string \<Rightarrow> bool" where
  "str_isalnum t = (t \<noteq> [] \<and> list_all isalnum t)"

text \<open>One round of the generator \<open>c for c in title if c.isalnum() or c in (' ', '-', '_')\<close>:
  what the element contributes to the join.\<close>

definition keep_item :: "json \<Rightarrow> error + string" where
  "keep_item c =
     (case c of
        JStr t \<Rightarrow> Inr (if str_isalnum t \<or> t \<in> set ['' '', ''-'', ''_''] then t else [])
      | _ \<Rightarrow> Inl AttributeError)"

fun join_kept :: "json list \<Rightarrow> error + string" where
  "join_kept [] = Inr []"
| "join_kept (c # cs) =
     bind_err (keep_item c) (\<lambda>a. bind_err (join_kept cs) (\<lambda>b. Inr (a @ b)))"

definition safe_title :: "json \<Rightarrow> error + string" where
  "safe_title title =
     bind_err (py_iter title) (\<lambda>items.
     bind_err (join_kept items) (\<lambda>joined. Inr (strip joined)))"

text \<open>\<open>safe_title.replace(' ', '_')\<close>.\<close>

definition replace_spaces :: "string \<Rightarrow> string" where
  "replace_spaces s = map (\<lambda>c. if c = CHR '' '' then CHR ''_'' else c) s"

text \<open>\<open>f"{i:02d}"\<close> for the position of a game.\<close>

definition format_02d :: "nat \<Rightarrow> string" where
  "format_02d i = (if i < 10 then CHR ''0'' # str_nat i else str_nat i)"

definition game_filename :: "string \<Rightarrow> string \<Rightarrow> string" where
  "game_filename num safe = ''game_'' @ num @ ''_'' @ replace_spaces safe @ ''.html''"

text \<open>The statements of the inner \<open>try\<close> after the generator has returned.\<close>

definition save_game :: "env \<Rightarrow> nat \<Rightarrow> json \<Rightarrow> string \<Rightarrow> event list \<times> (error + game_entry)" where
  "save_game env i game_spec html_code =
     (case bind_err (py_get game_spec ''title'' (JStr (''Game '' @ str_nat i))) (\<lambda>title.
           bind_err (safe_title title) (\<lambda>safe.
           bind_err (py_get game_spec ''concept'' (JStr ''Learning'')) (\<lambda>concept.
           bind_err (py_get game_spec ''difficulty'' (JStr ''Medium'')) (\<lambda>difficulty.
           bind_err (py_get game_spec ''learning_objective'' (JStr ''Educational goal'')) (\<lambda>objective.
           bind_err (py_get game_spec ''estimated_time'' (JStr ''3 minutes'')) (\<lambda>minutes.
           Inr \<lparr> e_number = i, e_title = title,
                  e_filename = game_filename (format_02d i) safe,
                  e_concept = concept, e_difficulty = difficulty,
                  e_learning_objective = objective, e_estimated_time = minutes \<rparr>)))))) of
        Inl e \<Rightarrow> ([], Inl e)
      | Inr g \<Rightarrow>
          if write_ok env (e_filename g)
          then ([WriteFile (e_filename g) html_code], Inr g)
          else ([], Inl OSError))"

text \<open>The inner \<open>try\<close> with its handler: the entry of the game, or none with an
  error line in the log.\<close>

definition process_game :: "env \<Rightarrow> nat \<Rightarrow> json \<Rightarrow> event list \<times> game_entry option" where
  "process_game env i game_spec =
     (case generator_run (game_llm env i) (fallback env) game_spec of
        (events, Inl e) \<Rightarrow>
          (events @ [Log LError (''Failed to generate game '' @ str_nat i)], None)
      | (events, Inr html_code) \<Rightarrow>
          (case save_game env i game_spec html_code of
             (saved, Inl e) \<Rightarrow>
               (events @ saved @ [Log LError (''Failed to generate game '' @ str_nat i)], None)
           | (saved, Inr g) \<Rightarrow>
               (events @ saved @ [Log LInfo ''Generated successfully''], Some g)))"

text \<open>
  The loop over \<open>enumerate(analysis['game_specifications'], 1)\<close>.  The log line at
  the head of the body calls \<open>game_spec.get\<close> outside the inner \<open>try\<close>: on a
  specification that is no dict it raises and ends the loop.
\<close>

fun game_loop :: "env \<Rightarrow> nat \<Rightarrow> json list \<Rightarrow> event list \<times> game_entry list \<times> error option" where
  "game_loop env i [] = ([], [], None)"
| "game_loop env i (game_spec # rest) =
     (case py_get game_spec ''title'' (JStr ''Untitled'') of
        Inl e \<Rightarrow> ([], [], Some e)
      | Inr t \<Rightarrow>
          (case process_game env i game_spec of
             (events, g) \<Rightarrow>
               (case game_loop env (Suc i) rest of
                  (later, games, err) \<Rightarrow>
                    (Log LInfo (''Generating '' @ str_nat i) # events @ later,
                     (case g of None \<Rightarrow> games | Some x \<Rightarrow> x # games),
                     err))))"

text \<open>\<open>int(text)\<close> of a text without blanks: a sign, then decimal digits, single
  underscores allowed between digits.\<close>

definition is_digit :: "char \<Rightarrow> bool" where
  "is_digit c = (let n = (of_char c :: nat) in 48 \<le> n \<and> n \<le> 57)"

definition digit_value :: "char \<Rightarrow> nat" where
  "digit_value c = of_char c - 48"

fun parse_digits :: "nat \<Rightarrow> string \<Rightarrow> nat option" where
  "parse_digits acc [] = Some acc"
| "parse_digits acc [c] = (if is_digit c then Some (10 * acc + digit_value c) else None)"
| "parse_digits acc (c # d # ds) =
     (if is_digit c then parse_digits (10 * acc + digit_value c) (d # ds)
      else if c = CHR ''_'' \<and> is_digit d then parse_digits (10 * acc + digit_value d) ds
      else None)"

definition py_int :: "string \<Rightarrow> error + int" where
  "py_int t =
     (let neg = startswith t ''-'';
          body = (if startswith t ''-'' \<or> startswith t ''+'' then tl t else t)
      in case body of
           [] \<Rightarrow> Inl ValueError
         | d # ds \<Rightarrow>
             if is_digit d
             then (case parse_digits (digit_value d) ds of
                     None \<Rightarrow> Inl ValueError
                   | Some n \<Rightarrow> Inr (if neg then - int n else int n))
             else Inl ValueError)"

text \<open>\<open>int(game.get('estimated_time', '3').split()[0])\<close>; every entry has the key.\<close>

definition minutes_of :: "game_entry \<Rightarrow> error + int" where
  "minutes_of game =
     (case e_estimated_time game of
        JStr s \<Rightarrow>
          (let word = takeWhile (\<lambda>c. \<not> isspace c) (dropWhile isspace s)
           in if word = [] then Inl IndexError else py_int word)
      | _ \<Rightarrow> Inl AttributeError)"

fun total_minutes :: "game_entry list \<Rightarrow> error + int" where
  "total_minutes [] = Inr 0"
| "total_minutes (game # games) =
     bind_err (minutes_of game) (\<lambda>m. bind_err (total_minutes games) (\<lambda>t. Inr (m + t)))"

text \<open>\<open>game['difficulty'].lower()\<close> in the loop over the cards.\<close>

definition difficulty_class :: "game_entry \<Rightarrow> error + string" where
  "difficulty_class game =
     (case e_difficulty game of
        JStr d \<Rightarrow> Inr (map (\<lambda>c. if c = CHR '' '' then CHR ''-'' else c) (lower d))
      | _ \<Rightarrow> Inl AttributeError)"

fun card_classes :: "game_entry list \<Rightarrow> error + string list" where
  "card_classes [] = Inr []"
| "card_classes (game # games) =
     bind_err (difficulty_class game) (\<lambda>c. bind_err (card_classes games) (\<lambda>cs. Inr (c # cs)))"

text \<open>
  \<open>_create_enhanced_index\<close>: the page shows the number of games, the total time,
  values of the analysis read by subscript, and one card for each game of the list it
  is given, in the order of the list.
\<close>

definition create_enhanced_index :: "env \<Rightarrow> game_entry list \<Rightarrow> json \<Rightarrow> event list \<times> (error + unit)" where
  "create_enhanced_index env games analysis =
     (case bind_err (total_minutes games) (\<lambda>total_time.
           bind_err (py_getitem analysis ''content_analysis'') (\<lambda>ca.
           bind_err (py_getitem ca ''total_concepts'') (\<lambda>concepts.
           bind_err (py_getitem ca ''reasoning'') (\<lambda>reasoning.
           bind_err (py_getitem ca ''complexity_breakdown'') (\<lambda>breakdown.
           bind_err (py_getitem breakdown ''simple'') (\<lambda>simple.
           bind_err (py_getitem breakdown ''medium'') (\<lambda>medium.
           bind_err (py_getitem breakdown ''complex'') (\<lambda>complex.
           bind_err (card_classes games) (\<lambda>classes.
           Inr \<lparr> idx_game_count = length games, idx_total_time = total_time,
                  idx_cards = games \<rparr>))))))))) of
        Inl e \<Rightarrow> ([], Inl e)
      | Inr page \<Rightarrow>
          if write_ok env ''index.html''
          then ([WriteIndex page, Log LInfo ''Enhanced index page created''], Inr ())
          else ([], Inl OSError))"

definition save_analysis_report :: "env \<Rightarrow> json \<Rightarrow> game_entry list \<Rightarrow> event list \<times> (error + unit)" where
  "save_analysis_report env analysis games =
     (case bind_err (py_getitem analysis ''content_analysis'') (\<lambda>ca.
           bind_err (py_getitem ca ''optimal_game_count'') (\<lambda>requested.
           Inr \<lparr> rep_content_analysis = ca, rep_generated_games = games,
                  rep_total_games_requested = requested,
                  rep_total_games_generated = length games \<rparr>)) of
        Inl e \<Rightarrow> ([], Inl e)
      | Inr rep \<Rightarrow>
          if write_ok env ''analysis_report.json''
          then ([WriteReport rep, Log LInfo ''Analysis report saved''], Inr ())
          else ([], Inl OSError))"

text \<open>Running one step of the outer \<open>try\<close> after another: the events add up, the
  first error ends the block.\<close>

definition and_then ::
  "event list \<times> (error + 'a) \<Rightarrow> ('a \<Rightarrow> event list \<times> (error + 'b)) \<Rightarrow> event list \<times> (error + 'b)" where
  "and_then step rest =
     (case step of
        (events, Inl e) \<Rightarrow> (events, Inl e)
      | (events, Inr x) \<Rightarrow> (case rest x of (later, r) \<Rightarrow> (events @ later, r)))"

text \<open>Stage 8 of \<open>generate_adaptive_games\<close>: the index and the report of the games
  that were saved.\<close>

definition stage_8 :: "env \<Rightarrow> json \<Rightarrow> game_entry list \<Rightarrow> event list \<times> (error + unit)" where
  "stage_8 env analysis successful_games =
     and_then ([Log LInfo ''Stage 8: Creating index and reports''], Inr ()) (\<lambda>u.
     and_then (create_enhanced_index env successful_games analysis) (\<lambda>u.
     and_then (save_analysis_report env analysis successful_games) (\<lambda>u.
     ([Log LInfo ''Adaptive generation complete''], Inr ()))))"

text \<open>Stages 4 to 7: the loop over the specifications, then stage 8.\<close>

definition stage_4_7 :: "env \<Rightarrow> json \<Rightarrow> event list \<times> (error + unit)" where
  "stage_4_7 env analysis =
     and_then ([Mkdir, Log LInfo ''Stage 4-7: Generating adaptive games''],
               bind_err (py_getitem analysis ''game_specifications'') py_iter) (\<lambda>specs.
     and_then (case game_loop env 1 specs of
                 (events, games, None) \<Rightarrow> (events, Inr games)
               | (events, games, Some e) \<Rightarrow> (events, Inl e)) (\<lambda>successful_games.
     stage_8 env analysis successful_games))"

text \<open>Stages 2 and 3, the analysis and the output directory, then the rest.\<close>

definition adaptive_stages :: "env \<Rightarrow> event list \<times> (error + unit)" where
  "adaptive_stages env =
     and_then ([Log LInfo ''Stage 2: Analyzing content complexity''], Inr ()) (\<lambda>u.
     and_then (analyzer_run (analysis_llm env) (json_loads env)) (\<lambda>analysis.
     and_then ([], bind_err (py_getitem analysis ''content_analysis'') (\<lambda>ca.
                   bind_err (py_getitem ca ''optimal_game_count'') (\<lambda>optimal_games.
                   bind_err (py_getitem ca ''estimated_learning_time'') (\<lambda>t. Inr optimal_games)))) (\<lambda>optimal_games.
     and_then ([Log LInfo ''Analysis complete'', Log LInfo ''Stage 3: Setting up output directory''],
               if mkdir_ok env then Inr () else Inl OSError) (\<lambda>u.
     stage_4_7 env analysis))))"

text \<open>
  \<open>generate_adaptive_games\<close>, on the result of reading the content file.  Every
  exception of the body ends in the handler of the outer \<open>try\<close>, which logs it.
\<close>

definition generate_adaptive_games :: "env \<Rightarrow> error + string \<Rightarrow> event list" where
  "generate_adaptive_games env content_read =
     [Log LInfo ''Starting adaptive game generation'', Log LInfo ''Stage 1: Loading content''] @
     (case content_read of
        Inl e \<Rightarrow> [Log LError ''Critical error in adaptive system'']
      | Inr content \<Rightarrow>
          if length (strip content) < 50
          then [Log LError ''Content too short for analysis'']
          else (case adaptive_stages env of
                  (events, Inl e) \<Rightarrow> events @ [Log LError ''Critical error in adaptive system'']
                | (events, Inr u) \<Rightarrow> events))"

section \<open>multi\_agent\_game\_system.py\<close>

text \<open>
  \<open>re.search(r"```json\s*\n?(.*?)\n?```", rsp, re.DOTALL | re.IGNORECASE)\<close>, group 1:
  behind the first \<open>```json\<close> that has a closing fence, and the whitespace after
  it, the text up to the first \<open>```\<close>, without the line feed just before the fence.
\<close>

fun until_fence :: "string \<Rightarrow> string option" where
  "until_fence [] = None"
| "until_fence (c # cs) =
     (if startswith (c # cs) (nl # ''```'') \<or> startswith (c # cs) ''```'' then Some []
      else map_option (\<lambda>g. c # g) (until_fence cs))"

fun search_json_block :: "string \<Rightarrow> string option" where
  "search_json_block [] = None"
| "search_json_block (c # cs) =
     (if startswith_ci (c # cs) ''```json''
      then (case until_fence (dropWhile isspace (drop 7 (c # cs))) of
              Some g \<Rightarrow> Some g
            | None \<Rightarrow> search_json_block cs)
      else search_json_block cs)"

text \<open>\<open>re.search(r"\{.*?\}", rsp, re.DOTALL)\<close>, group 0: from the first opening brace
  to the first closing brace behind it.\<close>

definition search_braces :: "string \<Rightarrow> string option" where
  "search_braces rsp =
     (let t = dropWhile (\<lambda>c. c \<noteq> CHR ''{'') rsp
      in if t \<noteq> [] \<and> CHR ''}'' \<in> set t
         then Some (takeWhile (\<lambda>c. c \<noteq> CHR ''}'') t @ ''}'')
         else None)"

text \<open>The text handed to \<open>json.loads\<close>: the fenced block, else the braces, else the
  whole answer.\<close>

definition json_text :: "string \<Rightarrow> string" where
  "json_text rsp =
     (case search_json_block rsp of
        Some g \<Rightarrow> g
      | None \<Rightarrow> (case search_braces rsp of Some t \<Rightarrow> t | None \<Rightarrow> rsp))"

definition parse_json_response :: "json_loads \<Rightarrow> string \<Rightarrow> error + json" where
  "parse_json_response loads rsp =
     (case loads (json_text rsp) of
        Inr v \<Rightarrow> Inr v
      | Inl (JSONDecodeError msg) \<Rightarrow>
          Inr (JObj [(''error'', JStr ''Failed to parse JSON''), (''raw_response'', JStr rsp)])
      | Inl e \<Rightarrow> Inl e)"

text \<open>The entry \<open>GameValidator._act\<close> appends for a game and the answer of the model
  to its validation.\<close>

definition validation_result :: "json_loads \<Rightarrow> json \<Rightarrow> string \<Rightarrow> error + json" where
  "validation_result loads game validation =
     bind_err (parse_json_response loads validation) (\<lambda>validation_data.
     bind_err (py_getitem game ''game_number'') (\<lambda>number.
     bind_err (py_getitem game ''title'') (\<lambda>title.
     Inr (JObj [(''game_number'', number), (''title'', title),
                (''validation'', validation_data), (''game_data'', game)]))))"

text \<open>The truth value of a value in a condition.\<close>

definition truthy :: "json \<Rightarrow> bool" where
  "truthy v =
     (case v of
        JNull \<Rightarrow> False
      | JBool b \<Rightarrow> b
      | JInt n \<Rightarrow> n \<noteq> 0
      | JFloat f \<Rightarrow> f \<noteq> Finite 0
      | JStr s \<Rightarrow> s \<noteq> []
      | JArr xs \<Rightarrow> xs \<noteq> []
      | JObj items \<Rightarrow> items \<noteq> [])"

text \<open>\<open>f"{n:02d}"\<close> for a value read from JSON.\<close>

definition format_02d_json :: "json \<Rightarrow> error + string" where
  "format_02d_json v =
     (case v of
        JInt n \<Rightarrow> Inr (if n < 0 then CHR ''-'' # str_nat (nat (- n)) else format_02d (nat n))
      | JBool b \<Rightarrow> Inr (format_02d (if b then 1 else 0))
      | JFloat f \<Rightarrow> Inl ValueError
      | JStr s \<Rightarrow> Inl ValueError
      | _ \<Rightarrow> Inl TypeError)"

text \<open>
  The body of the loop of \<open>_save_games\<close> for one result.  \<open>str_of\<close> is Python's
  \<open>str\<close> on the game number, used for the title of a game that has none.  The file is
  opened before its content is written, so a content that is no string leaves an empty
  file behind the \<open>TypeError\<close>.
\<close>

definition save_result ::
  "(json \<Rightarrow> string) \<Rightarrow> (string \<Rightarrow> bool) \<Rightarrow> json \<Rightarrow> event list \<times> (error + saved_game option)" where
  "save_result str_of can_write result =
     and_then ([], bind_err (py_get result ''game_data'' (JObj [])) (\<lambda>game_data.
                   bind_err (py_get result ''validation'' (JObj [])) (\<lambda>validation.
                   bind_err (py_get validation ''passes_validation'' (JBool True)) (\<lambda>passes.
                   Inr (game_data, validation, passes))))) (\<lambda>(game_data, validation, passes).
     if \<not> truthy passes then ([], Inr None) else
     and_then ([], bind_err (py_get game_data ''game_number'' (JInt 1)) (\<lambda>number.
                   bind_err (py_get game_data ''title'' (JStr (''Game '' @ str_of number))) (\<lambda>title.
                   bind_err (safe_title title) (\<lambda>safe.
                   bind_err (format_02d_json number) (\<lambda>num.
                   bind_err (py_get game_data ''html'' (JStr [])) (\<lambda>html.
                   Inr (title, game_filename num safe, html))))))) (\<lambda>(title, filename, html).
     and_then ([], if can_write filename then Inr () else Inl OSError) (\<lambda>u.
     and_then (case html of
                 JStr text \<Rightarrow> ([WriteFile filename text], Inr ())
               | _ \<Rightarrow> ([WriteFile filename []], Inl TypeError)) (\<lambda>u.
     and_then ([], py_get validation ''validation_score'' (JInt 0)) (\<lambda>score.
     ([Log LInfo ''Saved''],
      Inr (Some \<lparr> s_title = title, s_filename = filename, s_validation_score = score \<rparr>)))))))"

fun save_results ::
  "(json \<Rightarrow> string) \<Rightarrow> (string \<Rightarrow> bool) \<Rightarrow> json list \<Rightarrow> event list \<times> (error + saved_game list)" where
  "save_results str_of can_write [] = ([], Inr [])"
| "save_results str_of can_write (result # rest) =
     and_then (save_result str_of can_write result) (\<lambda>saved.
     and_then (save_results str_of can_write rest) (\<lambda>games.
     ([], Inr (case saved of None \<Rightarrow> games | Some g \<Rightarrow> g # games))))"

text \<open>\<open>_save_games\<close>, on the result of \<open>json.loads(results_json)\<close>; one \<open>try\<close>
  holds the whole of it.\<close>

definition save_games ::
  "(json \<Rightarrow> string) \<Rightarrow> bool \<Rightarrow> (string \<Rightarrow> bool) \<Rightarrow> error + json \<Rightarrow> event list" where
  "save_games str_of can_mkdir can_write results_read =
     (case and_then ([], results_read) (\<lambda>results.
           and_then ([], if can_mkdir then Inr () else Inl OSError) (\<lambda>u.
           and_then ([Mkdir], py_iter results) (\<lambda>items.
           and_then (save_results str_of can_write items) (\<lambda>successful_games.
           and_then ([], if can_write ''index.html'' then Inr () else Inl OSError) (\<lambda>u.
           ([WriteSavedIndex successful_games, Log LInfo ''Index page created''], Inr ())))))) of
        (events, Inl e) \<Rightarrow> events @ [Log LError ''Error saving games'']
      | (events, Inr u) \<Rightarrow> events)"

section \<open>Vocabulary of the properties\<close>

text \<open>The number of positions of a text at which a given word stands.\<close>

fun occurrences :: "string \<Rightarrow> string \<Rightarrow> nat" where
  "occurrences [] sub = (if sub = [] then 1 else 0)"
| "occurrences (c # cs) sub =
     (if startswith (c # cs) sub then 1 else 0) + occurrences cs sub"

text \<open>The characters a title keeps, and the trimming of blanks at both ends.\<close>

definition keep_char :: "char \<Rightarrow> bool" where
  "keep_char c = (isalnum c \<or> c = CHR '' '' \<or> c = CHR ''-'' \<or> c = CHR ''_'')"

definition trim_blanks :: "string \<Rightarrow> string" where
  "trim_blanks s =
     rev (dropWhile (\<lambda>c. c = CHR '' '') (rev (dropWhile (\<lambda>c. c = CHR '' '') s)))"

text \<open>The slug in the words of the specification: the characters that are not kept
  removed, every blank an underscore.\<close>

definition spec_slug :: "string \<Rightarrow> string" where
  "spec_slug title = replace_spaces (filter keep_char title)"

text \<open>The two events that write the index page and the report.\<close>

definition is_summary :: "event \<Rightarrow> bool" where
  "is_summary ev =
     (case ev of WriteIndex page \<Rightarrow> True | WriteReport rep \<Rightarrow> True | _ \<Rightarrow> False)"

definition is_dict :: "json \<Rightarrow> bool" where
  "is_dict v = (case v of JObj items \<Rightarrow> True | _ \<Rightarrow> False)"

text \<open>A result of the validator role whose validation is a dict (the default \<open>{}\<close>
  when the key is missing) without the key \<open>passes_validation\<close>.\<close>

definition lacks_passes_validation :: "json \<Rightarrow> bool" where
  "lacks_passes_validation result =
     (case result of
        JObj items \<Rightarrow>
          (case map_of items ''validation'' of
             None \<Rightarrow> True
           | Some (JObj v) \<Rightarrow> map_of v ''passes_validation'' = None
           | Some other \<Rightarrow> False)
      | _ \<Rightarrow> False)"

text \<open>An environment for the examples: the model answers nothing useful, every file
  can be written.\<close>

text \<open>An answer of a hundred letters: long enough to pass the first test of the
  generator, and no HTML at all.\<close>

definition hundred_letters :: string where
  "hundred_letters = replicate 100 (CHR ''x'')"

text \<open>An analysis that plans three games, and an environment in which the analyzer
  gets it, the second game fails (the model raises at each of its attempts) and every
  other game gets the hundred letters.\<close>

definition three_specs :: "json list" where
  "three_specs =
     [JObj [(''title'', JStr ''Halves'')],
      JObj [(''title'', JStr ''Thirds'')],
      JObj [(''title'', JStr ''Fractions: Part/Whole!'')]]"

definition three_game_analysis :: json where
  "three_game_analysis =
     JObj [(''content_analysis'',
            JObj [(''total_concepts'', JInt 3),
                  (''complexity_breakdown'',
                   JObj [(''simple'', JInt 3), (''medium'', JInt 0), (''complex'', JInt 0)]),
                  (''estimated_learning_time'', JStr ''9 minutes''),
                  (''optimal_game_count'', JInt 3),
                  (''reasoning'', JStr ''one game for each concept'')]),
           (''game_specifications'', JArr three_specs)]"

text \<open>The entries of the first and of the third game of that plan.\<close>

definition halves_entry :: game_entry where
  "halves_entry =
     \<lparr> e_number = 1, e_title = JStr ''Halves'', e_filename = ''game_01_Halves.html'',
       e_concept = JStr ''Learning'', e_difficulty = JStr ''Medium'',
       e_learning_objective = JStr ''Educational goal'',
       e_estimated_time = JStr ''3 minutes'' \<rparr>"

definition fractions_entry :: game_entry where
  "fractions_entry =
     \<lparr> e_number = 3, e_title = JStr ''Fractions: Part/Whole!'',
       e_filename = ''game_03_Fractions_PartWhole.html'',
       e_concept = JStr ''Learning'', e_difficulty = JStr ''Medium'',
       e_learning_objective = JStr ''Educational goal'',
       e_estimated_time = JStr ''3 minutes'' \<rparr>"

definition second_fails_env :: env where
  "second_fails_env =
     \<lparr> analysis_llm = (\<lambda>k. Returns ''{}''), json_loads = (\<lambda>t. Inr three_game_analysis),
       game_llm = (\<lambda>i k. if i = 2 then Raises ''timeout'' else Returns hundred_letters),
       fallback = (\<lambda>spec. Inl AttributeError),
       mkdir_ok = True, write_ok = (\<lambda>name. True) \<rparr>"

text \<open>The file names an event refers to: those of the cards of an index, of the games
  of a report; none for any other event.\<close>

definition referenced :: "event \<Rightarrow> string list" where
  "referenced ev =
     (case ev of
        WriteIndex page \<Rightarrow> map e_filename (idx_cards page)
      | WriteReport rep \<Rightarrow> map e_filename (rep_generated_games rep)
      | _ \<Rightarrow> [])"

definition quiet_env :: env where
  "quiet_env =
     \<lparr> analysis_llm = (\<lambda>k. Returns ''{}''), json_loads = (\<lambda>t. Inr (JObj [])),
       game_llm = (\<lambda>i k. Raises ''timeout''), fallback = (\<lambda>spec. Inl AttributeError),
       mkdir_ok = True, write_ok = (\<lambda>name. True) \<rparr>"

section \<open>Properties of the string operations\<close>

lemma nl_isspace: "isspace nl"
  by (simp add: isspace_def)

lemma split_nl_not_Nil: "split_nl s \<noteq> []"
  by (induction s) (auto split: list.splits)

lemma join_split_nl: "join_nl (split_nl s) = s"
proof (induction s)
  case Nil
  show ?case by simp
next
  case (Cons c cs)
  show ?case
  proof (cases "c = nl")
    case True
    with Cons show ?thesis
      by (cases "split_nl cs") (simp_all add: split_nl_not_Nil)
  next
    case False
    obtain l ls where sp: "split_nl cs = l # ls"
      using split_nl_not_Nil by (cases "split_nl cs") auto
    with Cons False show ?thesis
      by (cases ls) auto
  qed
qed

lemma set_join_nl: "set (join_nl ls) \<subseteq> \<Union> (set ` set ls) \<union> {nl}"
  by (induction ls rule: join_nl.induct) auto

lemma set_concat_split_nl: "set (concat (split_nl s)) \<subseteq> set s"
proof (induction s)
  case Nil
  show ?case by simp
next
  case (Cons c cs)
  then show ?case
    using split_nl_not_Nil [of cs] by (cases "split_nl cs") auto
qed

lemma in_some_line:
  assumes "c \<in> set s" and "c \<noteq> nl"
  shows "\<exists>l \<in> set (split_nl s). c \<in> set l"
proof -
  have "c \<in> set (join_nl (split_nl s))"
    using assms by (simp add: join_split_nl)
  then show ?thesis
    using set_join_nl [of "split_nl s"] assms(2) by auto
qed

lemma rstrip_Nil_iff: "rstrip l = [] \<longleftrightarrow> (\<forall>c \<in> set l. isspace c)"
  by (simp add: rstrip_def dropWhile_eq_Nil_conv)

lemma lstrip_Nil_iff: "lstrip l = [] \<longleftrightarrow> (\<forall>c \<in> set l. isspace c)"
  by (simp add: lstrip_def dropWhile_eq_Nil_conv)

lemma strip_Nil_iff: "strip l = [] \<longleftrightarrow> (\<forall>c \<in> set l. isspace c)"
proof
  assume "strip l = []"
  then have a: "\<forall>c \<in> set (lstrip l). isspace c"
    by (simp add: strip_def rstrip_Nil_iff)
  show "\<forall>c \<in> set l. isspace c"
  proof (cases "lstrip l")
    case Nil
    then show ?thesis by (simp add: lstrip_Nil_iff)
  next
    case (Cons x xs)
    then have "\<not> isspace x"
      unfolding lstrip_def by (metis hd_dropWhile list.sel(1) list.distinct(1))
    with a Cons show ?thesis by simp
  qed
next
  assume a: "\<forall>c \<in> set l. isspace c"
  then have "lstrip l = []" by (simp add: lstrip_Nil_iff)
  then show "strip l = []" by (simp add: strip_def rstrip_def)
qed

lemma join_nl_Nil_iff: "join_nl ls = [] \<longleftrightarrow> ls = [] \<or> ls = [[]]"
  by (induction ls rule: join_nl.induct) auto

lemma format_html_Nil_iff: "format_html z = [] \<longleftrightarrow> (\<forall>c \<in> set z. isspace c)"
proof
  assume e: "format_html z = []"
  show "\<forall>c \<in> set z. isspace c"
  proof (rule ccontr)
    assume "\<not> (\<forall>c \<in> set z. isspace c)"
    then obtain c where c: "c \<in> set z" "\<not> isspace c" by auto
    then have "c \<noteq> nl" using nl_isspace by auto
    then obtain l where l: "l \<in> set (split_nl z)" "c \<in> set l"
      using in_some_line c(1) by blast
    then have nb: "strip l \<noteq> []" using c(2) by (auto simp: strip_Nil_iff)
    have rl: "rstrip l \<noteq> []" using l(2) c(2) by (auto simp: rstrip_Nil_iff)
    define ls where "ls = map rstrip (filter (\<lambda>line. strip line \<noteq> []) (split_nl z))"
    have "rstrip l \<in> set ls" using l(1) nb by (auto simp: ls_def)
    moreover have "ls = [] \<or> ls = [[]]"
      using e by (simp add: format_html_def join_nl_Nil_iff ls_def)
    ultimately show False using rl by auto
  qed
next
  assume a: "\<forall>c \<in> set z. isspace c"
  have "strip l = []" if "l \<in> set (split_nl z)" for l
  proof -
    have "set l \<subseteq> set z" using set_concat_split_nl [of z] that by auto
    then show ?thesis using a by (auto simp: strip_Nil_iff)
  qed
  then have "filter (\<lambda>line. strip line \<noteq> []) (split_nl z) = []"
    by (simp add: filter_empty_conv)
  then show "format_html z = []" by (simp add: format_html_def)
qed

lemma lt_not_space: "\<not> isspace (CHR ''<'')"
  by (simp add: isspace_def)

lemma strip_hd_not_space:
  assumes ne: "strip x \<noteq> []"
  shows "\<not> isspace (hd (strip x))"
proof -
  from ne have l: "lstrip x \<noteq> []" by (auto simp: strip_def rstrip_def)
  then have h: "\<not> isspace (hd (lstrip x))"
    unfolding lstrip_def by (metis hd_dropWhile)
  have "\<exists>ys. lstrip x = strip x @ ys"
    unfolding strip_def rstrip_def
    by (metis append_Nil2 rev_append rev_rev_ident takeWhile_dropWhile_id)
  then obtain ys where "lstrip x = strip x @ ys" by blast
  then have "hd (lstrip x) = hd (strip x)" using ne by (metis hd_append2)
  then show ?thesis using h by simp
qed

section \<open>Properties of the Response Sanitizer\<close>

lemma add_doctype_Nil: "add_doctype [] = []"
  by (simp add: add_doctype_def upper_def startswith_def lower_def)

lemma add_doctype_not_blank:
  assumes "strip x \<noteq> []"
  shows "\<exists>c \<in> set (add_doctype (strip x)). \<not> isspace c"
proof -
  have own: "\<exists>c \<in> set (strip x). \<not> isspace c"
    using strip_hd_not_space [OF assms] assms by (meson hd_in_set)
  show ?thesis
    unfolding add_doctype_def using own lt_not_space
    by (auto split: option.splits)
qed

text \<open>
  C1, as the code has it.  For every input string \<open>clean_html_response\<close> returns a
  string and raises nothing.  The returned string is empty exactly when trimming the
  input and removing the markdown patterns leaves nothing but whitespace; in every
  other case it is non-empty.
\<close>

theorem clean_html_response_returns:
  "\<exists>out. clean_html_response (PyStr s) = Inr out \<and>
         (out = [] \<longleftrightarrow> strip (remove_patterns (strip s)) = [])"
proof (cases "strip (remove_patterns (strip s)) = []")
  case True
  then show ?thesis
    by (simp add: clean_html_response_def clean_try_def str_strip_def add_doctype_Nil
        format_html_Nil_iff)
next
  case False
  from add_doctype_not_blank [OF False]
  have "format_html (add_doctype (strip (remove_patterns (strip s)))) \<noteq> []"
    by (simp add: format_html_Nil_iff)
  with False show ?thesis
    by (simp add: clean_html_response_def clean_try_def str_strip_def)
qed

theorem clean_html_response_returns_witness:
  "(\<exists>out. clean_html_response (PyStr ''<p>x</p>'') = Inr out \<and>
          (out = [] \<longleftrightarrow> strip (remove_patterns (strip ''<p>x</p>'')) = []))
   \<and> clean_html_response (PyStr ''<p>x</p>'') = Inr ''<p>x</p>''"
proof -
  have "clean_html_response (PyStr ''<p>x</p>'') = Inr ''<p>x</p>''"
    by code_simp
  then show ?thesis
    using clean_html_response_returns [of "''<p>x</p>''"] by simp
qed

text \<open>
  C1 as the specification words it fails: the input of three backquotes is not
  empty, the whole of it is a markdown fence, and the sanitizer returns the empty
  string.
\<close>

theorem clean_html_response_empty_counterexample:
  "''```'' \<noteq> [] \<and> clean_html_response (PyStr ''```'') = Inr []"
  by code_simp

text \<open>
  C5.  On the input \<open><body><h1>Hi</h1></body>\<close> the sanitizer returns the
  document-type declaration, an opening \<open><html lang="en">\<close>, the input unchanged
  and a closing \<open></html>\<close>, each on a line of its own: the output begins with the
  declaration and holds one \<open><html\<close> and one \<open></html>\<close>.  The cleaner of the
  robust variant wraps the same input in its document shell, with the same three
  properties.
\<close>

theorem clean_html_response_wraps_body:
  "clean_html_response (PyStr ''<body><h1>Hi</h1></body>'') =
     Inr (''<!DOCTYPE html>'' @ [nl] @ ''<html lang='' @ [dq] @ ''en'' @ [dq] @ ''>'' @ [nl]
          @ ''<body><h1>Hi</h1></body>'' @ [nl] @ ''</html>'')
   \<and> robust_clean_html_response (PyStr ''<body><h1>Hi</h1></body>'') =
     Inr (html_shell ''<body><h1>Hi</h1></body>'')
   \<and> list_all (\<lambda>out. startswith out ''<!DOCTYPE'' \<and> occurrences out ''<html'' = 1
                    \<and> occurrences out ''</html>'' = 1
                    \<and> occurrences out ''<body><h1>Hi</h1></body>'' = 1)
       [''<!DOCTYPE html>'' @ [nl] @ ''<html lang='' @ [dq] @ ''en'' @ [dq] @ ''>'' @ [nl]
          @ ''<body><h1>Hi</h1></body>'' @ [nl] @ ''</html>'',
        html_shell ''<body><h1>Hi</h1></body>'']"
  by code_simp

section \<open>Properties of the analyzer\<close>

lemma py_in_obj: "py_in key (JObj items) = Inr (map_of items key \<noteq> None)"
  by (simp add: py_in_def map_of_eq_None_iff)

lemma validate_try_not_obj:
  "(\<And>items. data \<noteq> JObj items) \<Longrightarrow> validate_try data \<noteq> Inr True"
  by (cases data) (auto simp: validate_try_def bind_err_def py_in_def py_getitem_def split: if_splits)

lemma validate_try_obj:
  "validate_try (JObj items) = Inr True \<longleftrightarrow>
     (\<exists>ca gc games r n.
        map_of items ''content_analysis'' = Some (JObj ca) \<and>
        map_of items ''game_specifications'' = Some games \<and>
        map_of ca ''optimal_game_count'' = Some gc \<and>
        as_number gc = Some (Finite r) \<and> 3 \<le> r \<and> r \<le> 15 \<and>
        py_len games = Inr n \<and> of_nat n = r)"
proof (cases "map_of items ''content_analysis''")
  case None
  then show ?thesis by (simp add: validate_try_def bind_err_def py_in_obj)
next
  case (Some cav)
  note ca = Some
  show ?thesis
  proof (cases "map_of items ''game_specifications''")
    case None
    then show ?thesis using ca by (simp add: validate_try_def bind_err_def py_in_obj)
  next
    case (Some games)
    note g = Some
    have not_obj: ?thesis if "\<And>c. cav \<noteq> JObj c"
      using that ca g
      by (cases cav) (auto simp: validate_try_def bind_err_def py_in_obj py_getitem_def py_in_def)
    show ?thesis
    proof (cases cav)
      case (JObj c)
      show ?thesis
      proof (cases "map_of c ''optimal_game_count''")
        case None
        then show ?thesis using ca g JObj
          by (simp add: validate_try_def bind_err_def py_in_obj py_getitem_def)
      next
        case (Some gc)
        note count = Some
        show ?thesis
        proof (cases "as_number gc")
          case None
          then show ?thesis using ca g JObj count
            by (simp add: validate_try_def bind_err_def py_in_obj py_getitem_def)
        next
          case (Some x)
          show ?thesis
          proof (cases "py_len games")
            case (Inl e)
            then show ?thesis using ca g JObj count Some
              by (simp add: validate_try_def bind_err_def py_in_obj py_getitem_def)
          next
            case (Inr n)
            then show ?thesis using ca g JObj count Some
              by (cases x)
                 (auto simp: validate_try_def bind_err_def py_in_obj py_getitem_def int_ne_def
                    int_le_float_def float_le_int_def)
          qed
        qed
      qed
    qed (use not_obj in auto)
  qed
qed

text \<open>
  C2.  The validator accepts a result exactly when it is a dict that holds a
  content-analysis section, itself a dict, and a game-specification value, the section
  declares a game count (the key \<open>optimal_game_count\<close>) that is a number with
  \<open>3 \<le> game_count \<le> 15\<close>, and the length of the game-specification value equals the
  game count.  Every other result is rejected.
\<close>

theorem validate_analysis_iff:
  "validate_analysis data \<longleftrightarrow>
     (\<exists>items ca gc games r n.
        data = JObj items \<and>
        map_of items ''content_analysis'' = Some (JObj ca) \<and>
        map_of items ''game_specifications'' = Some games \<and>
        map_of ca ''optimal_game_count'' = Some gc \<and>
        as_number gc = Some (Finite r) \<and> 3 \<le> r \<and> r \<le> 15 \<and>
        py_len games = Inr n \<and> of_nat n = r)"
proof -
  have v: "validate_analysis data \<longleftrightarrow> validate_try data = Inr True"
    by (auto simp: validate_analysis_def split: sum.splits)
  show ?thesis
  proof (cases "\<exists>items. data = JObj items")
    case True
    then obtain items where "data = JObj items" by blast
    then show ?thesis using v validate_try_obj [of items] by simp
  next
    case False
    then have "validate_try data \<noteq> Inr True" using validate_try_not_obj by blast
    with False v show ?thesis by blast
  qed
qed

text \<open>A result the validator accepts, and two it rejects: three games announced
  and two given, and two games announced.\<close>

theorem validate_analysis_iff_witness:
  "validate_analysis
     (JObj [(''content_analysis'', JObj [(''optimal_game_count'', JInt 3)]),
            (''game_specifications'', JArr [JObj [], JObj [], JObj []])])
   \<and> \<not> validate_analysis
     (JObj [(''content_analysis'', JObj [(''optimal_game_count'', JInt 3)]),
            (''game_specifications'', JArr [JObj [], JObj []])])
   \<and> \<not> validate_analysis
     (JObj [(''content_analysis'', JObj [(''optimal_game_count'', JInt 2)]),
            (''game_specifications'', JArr [JObj [], JObj []])])"
  by (simp add: validate_analysis_iff as_number_def py_len_def)

lemma str_nat_small:
  "str_nat (Suc 0) = ''1''" "str_nat (Suc (Suc 0)) = ''2''" "str_nat (Suc (Suc (Suc 0))) = ''3''"
  "str_nat 1 = ''1''" "str_nat 2 = ''2''" "str_nat 3 = ''3''"
  by code_simp+

lemmas suc_numerals = numeral_2_eq_2 numeral_3_eq_3

lemma analyzer_loop_end:
  "analyzer_loop llm loads (Suc (Suc (Suc 0))) =
     ([], Inl (PyException ''All content analysis attempts failed''))"
  by (subst analyzer_loop.simps) (simp add: suc_numerals)

lemma analyzer_loop_invalid:
  assumes "attempt < 3" and "llm attempt = Returns r"
    and "loads (clean_json_response r) = Inr d" and "\<not> validate_analysis d"
  shows "analyzer_loop llm loads attempt =
           ([LlmCall, Log LWarning (''Analysis validation failed on attempt '' @ str_nat (Suc attempt))]
              @ fst (analyzer_loop llm loads (Suc attempt)),
            snd (analyzer_loop llm loads (Suc attempt)))"
  using assms by (subst analyzer_loop.simps) (simp add: case_prod_beta)

lemma analyzer_loop_raises:
  assumes "attempt < 2" and "llm attempt = Raises msg"
  shows "analyzer_loop llm loads attempt =
           ([LlmCall, Log LWarning (''Analysis attempt '' @ str_nat (Suc attempt) @ '' failed''), Sleep 1]
              @ fst (analyzer_loop llm loads (Suc attempt)),
            snd (analyzer_loop llm loads (Suc attempt)))"
  using assms by (subst analyzer_loop.simps) (simp add: case_prod_beta)

lemma analyzer_loop_raises_last:
  assumes "llm (Suc (Suc 0)) = Raises msg"
  shows "analyzer_loop llm loads (Suc (Suc 0)) =
           ([LlmCall, Log LWarning ''Analysis attempt 3 failed''],
            Inl (PyException ''Failed to analyze content after 3 attempts''))"
  using assms by (subst analyzer_loop.simps) (simp add: str_nat_small suc_numerals)

text \<open>
  C3.  When the answer of every attempt parses and fails the validation, the analyzer
  calls the model three times, sleeps between no two attempts, and raises
  \<open>All content analysis attempts failed\<close>, a message without the count of attempts.
  The claim asks for a delay of one second between consecutive attempts and for a
  terminal error that names the count; the code does both only where an attempt ends
  in an exception (\<open>analyzer_run_exceptions\<close> below).
\<close>

theorem analyzer_run_validation_failures:
  assumes "\<forall>k<3. \<exists>r d. llm k = Returns r \<and> loads (clean_json_response r) = Inr d
                        \<and> \<not> validate_analysis d"
  shows "analyzer_run llm loads =
           ([LlmCall, Log LWarning ''Analysis validation failed on attempt 1'',
             LlmCall, Log LWarning ''Analysis validation failed on attempt 2'',
             LlmCall, Log LWarning ''Analysis validation failed on attempt 3''],
            Inl (PyException ''All content analysis attempts failed''))"
proof -
  from assms obtain r0 d0 r1 d1 r2 d2 where
    a0: "llm 0 = Returns r0" "loads (clean_json_response r0) = Inr d0" "\<not> validate_analysis d0" and
    a1: "llm (Suc 0) = Returns r1" "loads (clean_json_response r1) = Inr d1" "\<not> validate_analysis d1" and
    a2: "llm (Suc (Suc 0)) = Returns r2" "loads (clean_json_response r2) = Inr d2" "\<not> validate_analysis d2"
    by (metis numeral_3_eq_3 zero_less_Suc lessI less_SucI)
  have s2: "analyzer_loop llm loads (Suc (Suc 0)) =
      ([LlmCall, Log LWarning ''Analysis validation failed on attempt 3''],
       Inl (PyException ''All content analysis attempts failed''))"
    using analyzer_loop_invalid [of "Suc (Suc 0)" llm r2 loads d2] a2
    by (simp add: analyzer_loop_end str_nat_small)
  have s1: "analyzer_loop llm loads (Suc 0) =
      ([LlmCall, Log LWarning ''Analysis validation failed on attempt 2'',
        LlmCall, Log LWarning ''Analysis validation failed on attempt 3''],
       Inl (PyException ''All content analysis attempts failed''))"
    using analyzer_loop_invalid [of "Suc 0" llm r1 loads d1] a1
    by (simp add: s2 str_nat_small)
  show ?thesis
    unfolding analyzer_run_def
    using analyzer_loop_invalid [of 0 llm r0 loads d0] a0
    by (simp add: s1 str_nat_small)
qed

text \<open>The sibling path: three attempts that raise are one second apart, and the
  terminal error names the three attempts.\<close>

lemma analyzer_run_exceptions:
  assumes "\<forall>k<3. \<exists>msg. llm k = Raises msg"
  shows "analyzer_run llm loads =
           ([LlmCall, Log LWarning ''Analysis attempt 1 failed'', Sleep 1,
             LlmCall, Log LWarning ''Analysis attempt 2 failed'', Sleep 1,
             LlmCall, Log LWarning ''Analysis attempt 3 failed''],
            Inl (PyException ''Failed to analyze content after 3 attempts''))"
proof -
  from assms obtain m0 m1 m2 where
    a: "llm 0 = Raises m0" "llm (Suc 0) = Raises m1" "llm (Suc (Suc 0)) = Raises m2"
    by (metis numeral_3_eq_3 zero_less_Suc lessI less_SucI)
  have s1: "analyzer_loop llm loads (Suc 0) =
      ([LlmCall, Log LWarning ''Analysis attempt 2 failed'', Sleep 1,
        LlmCall, Log LWarning ''Analysis attempt 3 failed''],
       Inl (PyException ''Failed to analyze content after 3 attempts''))"
    using analyzer_loop_raises [of "Suc 0" llm m1 loads] a
    by (simp add: analyzer_loop_raises_last [of llm m2 loads] str_nat_small)
  show ?thesis
    unfolding analyzer_run_def
    using analyzer_loop_raises [of 0 llm m0 loads] a
    by (simp add: s1 str_nat_small)
qed

theorem analyzer_run_validation_failures_witness:
  "analyzer_run (\<lambda>k. Returns ''{}'') (\<lambda>t. Inr (JObj [])) =
           ([LlmCall, Log LWarning ''Analysis validation failed on attempt 1'',
             LlmCall, Log LWarning ''Analysis validation failed on attempt 2'',
             LlmCall, Log LWarning ''Analysis validation failed on attempt 3''],
            Inl (PyException ''All content analysis attempts failed''))
   \<and> Sleep 1 \<notin> set (fst (analyzer_run (\<lambda>k. Returns ''{}'') (\<lambda>t. Inr (JObj []))))"
proof -
  have "\<not> validate_analysis (JObj [])"
    by (simp add: validate_analysis_def validate_try_def bind_err_def py_in_def)
  then have "\<forall>k<(3::nat). \<exists>r d. (\<lambda>k. Returns ''{}'') k = Returns r
      \<and> (\<lambda>t. Inr (JObj [])) (clean_json_response r) = Inr d \<and> \<not> validate_analysis d"
    by simp
  from analyzer_run_validation_failures [OF this] show ?thesis by simp
qed

section \<open>Properties of the file names\<close>

lemma isalnum_not_space: "isalnum c \<Longrightarrow> \<not> isspace c"
  by (auto simp: isalnum_def isspace_def Let_def)

lemma keep_char_space:
  assumes "keep_char c"
  shows "isspace c \<longleftrightarrow> c = CHR '' ''"
proof -
  have blank: "isspace (CHR '' '')" "\<not> isalnum (CHR '' '')"
    and marks: "\<not> isspace (CHR ''-'')" "\<not> isspace (CHR ''_'')"
    by (simp_all add: isspace_def isalnum_def)
  from assms consider "isalnum c" | "c = CHR '' ''" | "c = CHR ''-''" | "c = CHR ''_''"
    by (auto simp: keep_char_def)
  then show ?thesis
  proof cases
    case 1
    then show ?thesis using isalnum_not_space blank by auto
  qed (use blank marks in auto)
qed

lemma keep_item_char:
  "keep_item (JStr [c]) = Inr (if keep_char c then [c] else [])"
  by (auto simp: keep_item_def str_isalnum_def keep_char_def)

lemma join_kept_chars:
  "join_kept (map (\<lambda>c. JStr [c]) s) = Inr (filter keep_char s)"
  by (induction s) (simp_all add: keep_item_char bind_err_def)

lemma dropWhile_cong_set:
  "(\<And>x. x \<in> set xs \<Longrightarrow> P x = Q x) \<Longrightarrow> dropWhile P xs = dropWhile Q xs"
  by (induction xs) auto

lemma strip_kept:
  assumes "\<forall>c \<in> set s. keep_char c"
  shows "strip s = trim_blanks s"
proof -
  have a: "dropWhile isspace s = dropWhile (\<lambda>c. c = CHR '' '') s"
    using assms by (intro dropWhile_cong_set) (simp add: keep_char_space)
  have "set (dropWhile (\<lambda>c. c = CHR '' '') s) \<subseteq> set s"
    by (simp add: set_dropWhileD subsetI)
  then have b: "dropWhile isspace (rev (dropWhile (\<lambda>c. c = CHR '' '') s))
      = dropWhile (\<lambda>c. c = CHR '' '') (rev (dropWhile (\<lambda>c. c = CHR '' '') s))"
    using assms by (intro dropWhile_cong_set) (auto simp: keep_char_space)
  show ?thesis
    by (simp add: strip_def lstrip_def rstrip_def trim_blanks_def a b)
qed

lemma safe_title_str:
  "safe_title (JStr title) = Inr (trim_blanks (filter keep_char title))"
  by (simp add: safe_title_def py_iter_def bind_err_def join_kept_chars strip_kept)

lemma set_trim_blanks: "set (trim_blanks s) \<subseteq> set s"
  unfolding trim_blanks_def
  by (metis set_dropWhileD set_rev subsetI)

lemma slug_chars:
  "c \<in> set (replace_spaces (trim_blanks (filter keep_char title)))
     \<Longrightarrow> isalnum c \<or> c = CHR ''-'' \<or> c = CHR ''_''"
proof -
  assume "c \<in> set (replace_spaces (trim_blanks (filter keep_char title)))"
  then obtain d where d: "d \<in> set (trim_blanks (filter keep_char title))"
    and c: "c = (if d = CHR '' '' then CHR ''_'' else d)"
    by (auto simp: replace_spaces_def)
  from d have "keep_char d" using set_trim_blanks by fastforce
  with c show ?thesis by (auto simp: keep_char_def)
qed

lemma str_nat_digit: "n < 10 \<Longrightarrow> length (str_nat n) = 1"
  by (subst str_nat.simps) simp

lemma format_02d_length: "i < 100 \<Longrightarrow> length (format_02d i) = 2"
proof (cases "i < 10")
  case True
  then show ?thesis by (simp add: format_02d_def str_nat_digit)
next
  case False
  assume "i < 100"
  with False have "i div 10 < 10" by simp
  then have "length (str_nat (i div 10)) = 1" by (rule str_nat_digit)
  with False show ?thesis
    by (simp add: format_02d_def) (subst str_nat.simps, simp)
qed

text \<open>
  C9, as the code has it.  The file of a game whose title is a string is named
  \<open>game_\<close>, the position padded with zeros to two digits (two digits exactly below
  100), an underscore, the slug and \<open>.html\<close>, and the slug is the title with every
  character removed that is not alphanumeric, a blank, a hyphen or an underscore, then
  trimmed of the blanks at both ends, then with every blank left turned into an
  underscore.  No character of the slug is anything but alphanumeric, a hyphen or an
  underscore, and the slug is the one of the specification whenever the filtered title
  has no blank at either end.
\<close>

theorem persisted_filename:
  assumes "save_game env i game_spec html_code = (events, Inr g)"
    and "e_title g = JStr title"
  shows "e_filename g =
           ''game_'' @ format_02d i @ ''_''
             @ replace_spaces (trim_blanks (filter keep_char title)) @ ''.html''
         \<and> events = [WriteFile (e_filename g) html_code]
         \<and> (\<forall>c \<in> set (replace_spaces (trim_blanks (filter keep_char title))).
               isalnum c \<or> c = CHR ''-'' \<or> c = CHR ''_'')
         \<and> (i < 100 \<longrightarrow> length (format_02d i) = 2)
         \<and> (trim_blanks (filter keep_char title) = filter keep_char title \<longrightarrow>
               replace_spaces (trim_blanks (filter keep_char title)) = spec_slug title)"
proof -
  from assms have "e_filename g = game_filename (format_02d i) (trim_blanks (filter keep_char title))
      \<and> events = [WriteFile (e_filename g) html_code]"
    by (auto simp: save_game_def bind_err_def safe_title_str
        split: sum.splits if_splits json.splits)
  then show ?thesis
    using slug_chars format_02d_length
    by (auto simp: game_filename_def spec_slug_def)
qed

lemma fractions_slug:
  "replace_spaces (trim_blanks (filter keep_char ''Fractions: Part/Whole!''))
      = ''Fractions_PartWhole''"
    by code_simp

lemma write_ok_quiet: "write_ok quiet_env name" "mkdir_ok quiet_env"
  by (simp_all add: quiet_env_def)

lemma fractions_file:
  "safe_title (JStr ''Fractions: Part/Whole!'') = Inr ''Fractions PartWhole''"
  "game_filename (format_02d (Suc 0)) ''Fractions PartWhole'' = ''game_01_Fractions_PartWhole.html''"
  "str_nat (Suc 0) = ''1''"
  by code_simp+

lemma sg: "save_game quiet_env 1 (JObj [(''title'', JStr ''Fractions: Part/Whole!'')]) ''<html></html>''
     = ([WriteFile ''game_01_Fractions_PartWhole.html'' ''<html></html>''],
       Inr \<lparr> e_number = 1, e_title = JStr ''Fractions: Part/Whole!'',
              e_filename = ''game_01_Fractions_PartWhole.html'',
              e_concept = JStr ''Learning'', e_difficulty = JStr ''Medium'',
              e_learning_objective = JStr ''Educational goal'',
              e_estimated_time = JStr ''3 minutes'' \<rparr>)"
  by (simp add: save_game_def bind_err_def py_get_def fractions_file write_ok_quiet)

theorem persisted_filename_witness:
  "save_game quiet_env 1 (JObj [(''title'', JStr ''Fractions: Part/Whole!'')]) ''<html></html>''
     = ([WriteFile ''game_01_Fractions_PartWhole.html'' ''<html></html>''],
        Inr \<lparr> e_number = 1, e_title = JStr ''Fractions: Part/Whole!'',
              e_filename = ''game_01_Fractions_PartWhole.html'',
              e_concept = JStr ''Learning'', e_difficulty = JStr ''Medium'',
              e_learning_objective = JStr ''Educational goal'',
              e_estimated_time = JStr ''3 minutes'' \<rparr>)
   \<and> ''game_01_Fractions_PartWhole.html'' =
       ''game_'' @ format_02d 1 @ ''_''
         @ replace_spaces (trim_blanks (filter keep_char ''Fractions: Part/Whole!'')) @ ''.html''
   \<and> list_all (\<lambda>c. isalnum c \<or> c = CHR ''-'' \<or> c = CHR ''_'')
         (replace_spaces (trim_blanks (filter keep_char ''Fractions: Part/Whole!'')))"
proof -
  let ?g = "\<lparr> e_number = 1, e_title = JStr ''Fractions: Part/Whole!'',
              e_filename = ''game_01_Fractions_PartWhole.html'',
              e_concept = JStr ''Learning'', e_difficulty = JStr ''Medium'',
              e_learning_objective = JStr ''Educational goal'',
              e_estimated_time = JStr ''3 minutes'' \<rparr>"
  have t: "e_title ?g = JStr ''Fractions: Part/Whole!''"
    and f: "e_filename ?g = ''game_01_Fractions_PartWhole.html''" by simp_all
  from persisted_filename [OF sg t] show ?thesis
    unfolding f list_all_iff using sg by blast
qed

text \<open>
  C9 as the specification words it fails on the title \<open>Hi !\<close>: the filter leaves
  \<open>Hi\<close> and a blank, the code trims the blank and names the file
  \<open>game_01_Hi.html\<close>; the blank turned into an underscore, the slug of the
  specification, is nowhere in that name.
\<close>

lemma hi_file:
  "safe_title (JStr ''Hi !'') = Inr ''Hi''"
  "game_filename (format_02d (Suc 0)) ''Hi'' = ''game_01_Hi.html''"
  "spec_slug ''Hi !'' = ''Hi_''"
  "\<not> contains ''game_01_Hi.html'' ''Hi_''"
  by code_simp+

theorem persisted_filename_counterexample:
  "map_sum id e_filename (snd (save_game quiet_env 1 (JObj [(''title'', JStr ''Hi !'')]) ''<html></html>''))
     = Inr ''game_01_Hi.html''
   \<and> spec_slug ''Hi !'' = ''Hi_''
   \<and> \<not> contains ''game_01_Hi.html'' (spec_slug ''Hi !'')"
proof -
  have "map_sum id e_filename
      (snd (save_game quiet_env 1 (JObj [(''title'', JStr ''Hi !'')]) ''<html></html>''))
     = Inr ''game_01_Hi.html''"
    by (simp add: save_game_def bind_err_def py_get_def hi_file(1,2) fractions_file(3)
        write_ok_quiet)
  then show ?thesis
    using hi_file(3,4) by (simp only: simp_thms)
qed

section \<open>Properties of the pipeline\<close>

lemma analyzer_loop_calls:
  "attempt < 3 \<Longrightarrow> LlmCall \<in> set (fst (analyzer_loop llm loads attempt))"
  by (subst analyzer_loop.simps)
     (auto simp: Let_def case_prod_beta split: reply.splits sum.splits)

lemma and_then_events: "x \<in> set (fst step) \<Longrightarrow> x \<in> set (fst (and_then step rest))"
  by (cases step) (auto simp: and_then_def split: prod.splits sum.splits)

lemma and_then_later:
  "x \<in> set (fst (rest u)) \<Longrightarrow> x \<in> set (fst (and_then (events, Inr u) rest))"
  by (auto simp: and_then_def split: prod.splits sum.splits)

lemma adaptive_stages_calls: "LlmCall \<in> set (fst (adaptive_stages env))"
proof -
  have "LlmCall \<in> set (fst (analyzer_run (analysis_llm env) (json_loads env)))"
    by (simp add: analyzer_run_def analyzer_loop_calls)
  then show ?thesis
    unfolding adaptive_stages_def
    by (intro and_then_later and_then_events)
qed

lemma long_content_calls:
  assumes "50 \<le> length (strip content)"
  shows "LlmCall \<in> set (generate_adaptive_games env (Inr content))"
proof (cases "adaptive_stages env")
  case (Pair events res)
  with adaptive_stages_calls [of env] have "LlmCall \<in> set events" by simp
  with Pair assms show ?thesis
    by (cases res) (simp_all add: generate_adaptive_games_def)
qed

text \<open>
  C8, as the code has it.  The measure is the length of the content after trimming
  the whitespace at its two ends.  Below 50 the run logs the error and ends there:
  nothing but its three log lines happens, so no call of the model, no retry and no
  file.  From 50 on the run goes on to the analyzer and calls the model.
\<close>

theorem short_content_rejected:
  "(length (strip content) < 50 \<longrightarrow>
      generate_adaptive_games env (Inr content) =
        [Log LInfo ''Starting adaptive game generation'', Log LInfo ''Stage 1: Loading content'',
         Log LError ''Content too short for analysis''])
   \<and> (50 \<le> length (strip content) \<longrightarrow>
        LlmCall \<in> set (generate_adaptive_games env (Inr content)))"
  using long_content_calls by (simp add: generate_adaptive_games_def)

theorem short_content_rejected_witness:
  "length (strip ''too short a text'') < 50
   \<and> generate_adaptive_games quiet_env (Inr ''too short a text'') =
        [Log LInfo ''Starting adaptive game generation'', Log LInfo ''Stage 1: Loading content'',
         Log LError ''Content too short for analysis'']"
proof -
  have "length (strip ''too short a text'') < 50" by code_simp
  then show ?thesis
    using short_content_rejected [of "''too short a text''" quiet_env] by blast
qed

text \<open>
  C8 as the specification words it fails: a content of two letters with 48 blanks
  between them has two characters that are not whitespace, and is not rejected.
\<close>

theorem short_content_counterexample:
  "length (filter (\<lambda>c. \<not> isspace c) (''a'' @ replicate 48 (CHR '' '') @ ''b'')) = 2
   \<and> LlmCall \<in> set (generate_adaptive_games quiet_env (Inr (''a'' @ replicate 48 (CHR '' '') @ ''b'')))"
proof -
  have "50 \<le> length (strip (''a'' @ replicate 48 (CHR '' '') @ ''b''))" by code_simp
  moreover have "length (filter (\<lambda>c. \<not> isspace c) (''a'' @ replicate 48 (CHR '' '') @ ''b'')) = 2"
    by code_simp
  ultimately show ?thesis using long_content_calls by blast
qed

section \<open>Properties of the game generator\<close>









section \<open>Properties of the loop over the games\<close>

lemma py_get_dict: "(\<exists>v. py_get spec key dflt = Inr v) \<longleftrightarrow> is_dict spec"
  by (cases spec) (auto simp: py_get_def is_dict_def split: option.splits)

lemma game_loop_dicts:
  assumes "list_all is_dict specs"
  shows "game_loop env i specs =
           (concat (map (\<lambda>(k, spec). Log LInfo (''Generating '' @ str_nat k)
                                        # fst (process_game env k spec))
                        (enumerate i specs)),
            List.map_filter (\<lambda>(k, spec). snd (process_game env k spec)) (enumerate i specs),
            None)"
  using assms
proof (induction specs arbitrary: i)
  case Nil
  show ?case by simp
next
  case (Cons spec specs)
  then have "is_dict spec" and rest: "list_all is_dict specs" by simp_all
  then obtain t where t: "py_get spec ''title'' (JStr ''Untitled'') = Inr t"
    using py_get_dict by blast
  show ?case
    using Cons.IH [OF rest, of "Suc i"] t
    by (cases "process_game env i spec")
       (auto split: option.splits)
qed

lemma game_loop_no_error:
  "snd (snd (game_loop env i specs)) = None \<longleftrightarrow> list_all is_dict specs"
proof (induction specs arbitrary: i)
  case Nil
  show ?case by simp
next
  case (Cons spec specs)
  show ?case
  proof (cases "is_dict spec")
    case True
    then obtain t where t: "py_get spec ''title'' (JStr ''Untitled'') = Inr t"
      using py_get_dict by blast
    with True Cons [of "Suc i"] show ?thesis
      by (auto simp: case_prod_beta split: prod.splits)
  next
    case False
    then have "\<exists>e. py_get spec ''title'' (JStr ''Untitled'') = Inl e"
      using py_get_dict [of spec "''title''" "JStr ''Untitled''"]
      by (cases "py_get spec ''title'' (JStr ''Untitled'')") auto
    with False show ?thesis by auto
  qed
qed

lemma process_game_Some:
  "snd (process_game env i spec) = Some g \<longleftrightarrow>
     (\<exists>html. snd (generator_run (game_llm env i) (fallback env) spec) = Inr html
             \<and> snd (save_game env i spec html) = Inr g)"
  by (cases "generator_run (game_llm env i) (fallback env) spec")
     (auto simp: process_game_def split: sum.splits prod.splits)

lemma process_game_None:
  "snd (process_game env i spec) = None \<Longrightarrow>
     \<exists>events. fst (process_game env i spec)
        = events @ [Log LError (''Failed to generate game '' @ str_nat i)]"
  by (cases "generator_run (game_llm env i) (fallback env) spec")
     (auto simp: process_game_def split: sum.splits prod.splits)

lemma is_summary_simps [simp]:
  "\<not> is_summary LlmCall" "\<not> is_summary (Sleep n)" "\<not> is_summary (Log l m)"
  "\<not> is_summary Mkdir" "\<not> is_summary (WriteFile name text)"
  "\<not> is_summary (WriteSavedIndex games)"
  "is_summary (WriteIndex page)" "is_summary (WriteReport rep)"
  by (simp_all add: is_summary_def)

lemma analyzer_loop_done:
  "analyzer_loop llm loads 3 = ([], Inl (PyException ''All content analysis attempts failed''))"
  by (subst analyzer_loop.simps) simp

lemma generator_loop_done:
  "generator_loop llm fb spec 3 = ([], Inl (PyException ''All game generation attempts failed''))"
  by (subst generator_loop.simps) simp

lemma analyzer_loop_plain:
  "list_all (\<lambda>ev. \<not> is_summary ev) (fst (analyzer_loop llm loads attempt))"
proof (induction "3 - attempt" arbitrary: attempt)
  case 0
  then show ?case by (subst analyzer_loop.simps) simp
next
  case (Suc n)
  have "n = 3 - Suc attempt" using Suc(2) by simp
  note ih = Suc(1) [OF this]
  show ?case
    by (subst analyzer_loop.simps)
       (simp add: Let_def case_prod_beta ih analyzer_loop_done split: reply.splits sum.splits)
qed

lemma generator_loop_plain:
  "list_all (\<lambda>ev. \<not> is_summary ev) (fst (generator_loop llm fb spec attempt))"
proof (induction "3 - attempt" arbitrary: attempt)
  case 0
  then show ?case by (subst generator_loop.simps) simp
next
  case (Suc n)
  have "n = 3 - Suc attempt" using Suc(2) by simp
  note ih = Suc(1) [OF this]
  show ?case
    by (subst generator_loop.simps)
       (simp add: Let_def case_prod_beta ih generator_loop_done split: reply.splits sum.splits)
qed

lemma save_game_plain:
  "list_all (\<lambda>ev. \<not> is_summary ev) (fst (save_game env i spec html))"
  by (simp add: save_game_def split: sum.splits)

lemma process_game_plain:
  "list_all (\<lambda>ev. \<not> is_summary ev) (fst (process_game env i spec))"
proof -
  have g: "list_all (\<lambda>ev. \<not> is_summary ev) (fst (generator_run (game_llm env i) (fallback env) spec))"
    by (simp add: generator_run_def generator_loop_plain split: sum.splits)
  show ?thesis
  proof (cases "generator_run (game_llm env i) (fallback env) spec")
    case (Pair events res)
    with g have e: "list_all (\<lambda>ev. \<not> is_summary ev) events" by simp
    show ?thesis
    proof (cases res)
      case (Inl err)
      with Pair e show ?thesis by (simp add: process_game_def)
    next
      case (Inr html)
      with Pair e save_game_plain [of env i spec html] show ?thesis
        by (cases "save_game env i spec html")
           (auto simp: process_game_def split: sum.splits)
    qed
  qed
qed

lemma game_loop_plain:
  "list_all (\<lambda>ev. \<not> is_summary ev) (fst (game_loop env i specs))"
proof (induction specs arbitrary: i)
  case Nil
  show ?case by simp
next
  case (Cons spec specs)
  show ?case
    using Cons [of "Suc i"] process_game_plain [of env i spec]
    by (cases "process_game env i spec"; cases "game_loop env (Suc i) specs")
       (auto split: sum.splits)
qed

lemma and_then_inv:
  assumes "ev \<in> set (fst (and_then step rest))"
  shows "ev \<in> set (fst step) \<or> (\<exists>x. snd step = Inr x \<and> ev \<in> set (fst (rest x)))"
  using assms by (cases step) (auto simp: and_then_def split: sum.splits prod.splits)

lemma analyzer_run_plain: "ev \<in> set (fst (analyzer_run llm loads)) \<Longrightarrow> \<not> is_summary ev"
  using analyzer_loop_plain [of llm loads 0] by (simp add: analyzer_run_def list_all_iff)

lemma game_loop_plain_mem: "ev \<in> set (fst (game_loop env i specs)) \<Longrightarrow> \<not> is_summary ev"
  using game_loop_plain [of env i specs] by (simp add: list_all_iff)

lemma stage_8_summary:
  assumes "ev \<in> set (fst (stage_8 env analysis games))" and "is_summary ev"
  shows "ev \<in> set (fst (create_enhanced_index env games analysis))
         \<or> ev \<in> set (fst (save_analysis_report env analysis games))"
  using assms unfolding stage_8_def
  by (auto dest!: and_then_inv)

lemma stage_4_7_summary:
  assumes "ev \<in> set (fst (stage_4_7 env analysis))" and "is_summary ev"
  shows "\<exists>specs events games.
           bind_err (py_getitem analysis ''game_specifications'') py_iter = Inr specs
         \<and> game_loop env 1 specs = (events, games, None)
         \<and> ev \<in> set (fst (stage_8 env analysis games))"
proof -
  from assms obtain specs where
    s: "bind_err (py_getitem analysis ''game_specifications'') py_iter = Inr specs"
    and 2: "ev \<in> set (fst (
     and_then (case game_loop env 1 specs of
                 (events, games, None) \<Rightarrow> (events, Inr games)
               | (events, games, Some e) \<Rightarrow> (events, Inl e))
       (\<lambda>successful_games. stage_8 env analysis successful_games)))"
    unfolding stage_4_7_def
    by (auto dest!: and_then_inv [where step = "([Mkdir, Log LInfo ''Stage 4-7: Generating adaptive games''],
               bind_err (py_getitem analysis ''game_specifications'') py_iter)"])
  obtain events games err where g: "game_loop env 1 specs = (events, games, err)"
    by (cases "game_loop env 1 specs") auto
  have "ev \<notin> set events"
    using game_loop_plain_mem [of ev env 1 specs] g assms(2) by auto
  with 2 g have "err = None \<and> ev \<in> set (fst (stage_8 env analysis games))"
    by (cases err) (auto dest!: and_then_inv)
  with s g show ?thesis by blast
qed

lemma adaptive_stages_summary:
  assumes "ev \<in> set (fst (adaptive_stages env))" and "is_summary ev"
  shows "\<exists>analysis. snd (analyzer_run (analysis_llm env) (json_loads env)) = Inr analysis
           \<and> ev \<in> set (fst (stage_4_7 env analysis))"
  using assms unfolding adaptive_stages_def
  by (auto dest!: and_then_inv dest: analyzer_run_plain split: if_splits)

lemma index_cards:
  "WriteIndex page \<in> set (fst (create_enhanced_index env games analysis))
     \<Longrightarrow> idx_cards page = games \<and> idx_game_count page = length games"
  by (auto simp: create_enhanced_index_def bind_err_def split: sum.splits if_splits)

lemma index_no_report:
  "WriteReport rep \<notin> set (fst (create_enhanced_index env games analysis))"
  by (auto simp: create_enhanced_index_def split: sum.splits if_splits)

lemma report_games:
  "WriteReport rep \<in> set (fst (save_analysis_report env analysis games))
     \<Longrightarrow> rep_generated_games rep = games \<and> rep_total_games_generated rep = length games"
  by (auto simp: save_analysis_report_def bind_err_def split: sum.splits if_splits)

lemma report_no_index:
  "WriteIndex page \<notin> set (fst (save_analysis_report env analysis games))"
  by (auto simp: save_analysis_report_def split: sum.splits if_splits)

lemma run_summary:
  assumes "ev \<in> set (generate_adaptive_games env content_read)" and "is_summary ev"
  shows "\<exists>analysis specs.
           snd (analyzer_run (analysis_llm env) (json_loads env)) = Inr analysis
         \<and> bind_err (py_getitem analysis ''game_specifications'') py_iter = Inr specs
         \<and> list_all is_dict specs
         \<and> (ev \<in> set (fst (create_enhanced_index env
                 (List.map_filter (\<lambda>(k, spec). snd (process_game env k spec)) (enumerate 1 specs))
                 analysis))
            \<or> ev \<in> set (fst (save_analysis_report env analysis
                 (List.map_filter (\<lambda>(k, spec). snd (process_game env k spec)) (enumerate 1 specs)))))"
proof -
  have "ev \<in> set (fst (adaptive_stages env))"
  proof (cases "adaptive_stages env")
    case (Pair events res)
    with assms show ?thesis
      by (cases res; cases content_read)
         (auto simp: generate_adaptive_games_def split: if_splits)
  qed
  from adaptive_stages_summary [OF this assms(2)] obtain analysis where
    a: "snd (analyzer_run (analysis_llm env) (json_loads env)) = Inr analysis"
    and "ev \<in> set (fst (stage_4_7 env analysis))" by blast
  from stage_4_7_summary [OF this(2) assms(2)] obtain specs events games where
    s: "bind_err (py_getitem analysis ''game_specifications'') py_iter = Inr specs"
    and g: "game_loop env 1 specs = (events, games, None)"
    and 8: "ev \<in> set (fst (stage_8 env analysis games))" by blast
  from g have d: "list_all is_dict specs"
    using game_loop_no_error [of env 1 specs] by simp
  from game_loop_dicts [OF d, of env 1] g
  have "games = List.map_filter (\<lambda>(k, spec). snd (process_game env k spec)) (enumerate 1 specs)"
    by simp
  with stage_8_summary [OF 8 assms(2)] a s d show ?thesis by blast
qed

text \<open>
  C7.  Over specifications that are dicts the loop never stops early: its events are
  the blocks of the games in ascending order of position, one after the other, whatever
  the games did, and the list it builds holds the entries of exactly the games whose
  generation and saving both succeeded, in that order.  A game that failed ends its
  block with the error line of the handler.  Whenever a run writes the index page, its
  cards are that list for the specifications of the analysis, and whenever it writes
  the report, so are the games of the report.
\<close>

theorem partial_failure_tolerance:
  "(list_all is_dict specs \<longrightarrow>
      game_loop env i specs =
        (concat (map (\<lambda>(k, spec). Log LInfo (''Generating '' @ str_nat k)
                                     # fst (process_game env k spec))
                     (enumerate i specs)),
         List.map_filter (\<lambda>(k, spec). snd (process_game env k spec)) (enumerate i specs),
         None))
   \<and> (snd (process_game env i spec) = None \<longrightarrow>
        (\<exists>events. fst (process_game env i spec)
           = events @ [Log LError (''Failed to generate game '' @ str_nat i)]))
   \<and> (\<forall>g. snd (process_game env i spec) = Some g \<longleftrightarrow>
        (\<exists>html. snd (generator_run (game_llm env i) (fallback env) spec) = Inr html
                \<and> snd (save_game env i spec html) = Inr g))
   \<and> (\<forall>page. WriteIndex page \<in> set (generate_adaptive_games env content_read) \<longrightarrow>
        (\<exists>analysis planned.
            snd (analyzer_run (analysis_llm env) (json_loads env)) = Inr analysis
          \<and> bind_err (py_getitem analysis ''game_specifications'') py_iter = Inr planned
          \<and> idx_cards page =
              List.map_filter (\<lambda>(k, spec). snd (process_game env k spec)) (enumerate 1 planned)))
   \<and> (\<forall>rep. WriteReport rep \<in> set (generate_adaptive_games env content_read) \<longrightarrow>
        (\<exists>analysis planned.
            snd (analyzer_run (analysis_llm env) (json_loads env)) = Inr analysis
          \<and> bind_err (py_getitem analysis ''game_specifications'') py_iter = Inr planned
          \<and> rep_generated_games rep =
              List.map_filter (\<lambda>(k, spec). snd (process_game env k spec)) (enumerate 1 planned)))"
proof (intro conjI allI impI)
  assume "list_all is_dict specs"
  then show "game_loop env i specs =
        (concat (map (\<lambda>(k, spec). Log LInfo (''Generating '' @ str_nat k)
                                     # fst (process_game env k spec))
                     (enumerate i specs)),
         List.map_filter (\<lambda>(k, spec). snd (process_game env k spec)) (enumerate i specs),
         None)"
    by (rule game_loop_dicts)
next
  assume "snd (process_game env i spec) = None"
  then show "\<exists>events. fst (process_game env i spec)
           = events @ [Log LError (''Failed to generate game '' @ str_nat i)]"
    by (rule process_game_None)
next
  fix g
  show "snd (process_game env i spec) = Some g \<longleftrightarrow>
        (\<exists>html. snd (generator_run (game_llm env i) (fallback env) spec) = Inr html
                \<and> snd (save_game env i spec html) = Inr g)"
    by (rule process_game_Some)
next
  fix page
  assume "WriteIndex page \<in> set (generate_adaptive_games env content_read)"
  from run_summary [OF this] index_cards report_no_index
  show "\<exists>analysis planned.
            snd (analyzer_run (analysis_llm env) (json_loads env)) = Inr analysis
          \<and> bind_err (py_getitem analysis ''game_specifications'') py_iter = Inr planned
          \<and> idx_cards page =
              List.map_filter (\<lambda>(k, spec). snd (process_game env k spec)) (enumerate 1 planned)"
    by (metis is_summary_simps(7))
next
  fix rep
  assume "WriteReport rep \<in> set (generate_adaptive_games env content_read)"
  from run_summary [OF this] report_games index_no_report
  show "\<exists>analysis planned.
            snd (analyzer_run (analysis_llm env) (json_loads env)) = Inr analysis
          \<and> bind_err (py_getitem analysis ''game_specifications'') py_iter = Inr planned
          \<and> rep_generated_games rep =
              List.map_filter (\<lambda>(k, spec). snd (process_game env k spec)) (enumerate 1 planned)"
    by (metis is_summary_simps(8))
qed

end
